theory Spec2Isabelle
  imports Main "HOL-Library.Word" "HOL-Library.List_Lexorder" "HOL-Library.Sublist"
    "HOL-Library.Multiset"
begin

section \<open>Strings and values of the host language\<close>

text \<open>
  A JavaScript string is a sequence of 16-bit code units: \<open>length\<close>, \<open>slice\<close>,
  \<open>startsWith\<close>, \<open>split\<close>, \<open>replace\<close> and the comparison \<open><\<close> all work on code
  units. With the lexicographic order on lists, \<open>s < t\<close> on \<open>ustr\<close> is the comparison
  of JavaScript strings. \<open>asc\<close> embeds an ASCII literal.
\<close>

type_synonym ustr = "16 word list"

definition asc :: "string \<Rightarrow> ustr" where
  "asc s = map (\<lambda>c. word_of_nat (of_char c)) s"

text \<open>\<open>Array.prototype.join\<close> on a list of strings.\<close>

fun join :: "ustr \<Rightarrow> ustr list \<Rightarrow> ustr" where
  "join sep [] = []"
| "join sep [x] = x"
| "join sep (x # y # ys) = x @ sep @ join sep (y # ys)"

text \<open>
  The values that reach the functions below come from parsed frontmatter and JSON:
  \<open>undefined\<close> (an absent field), \<open>null\<close>, booleans, numbers, strings and arrays.
  Numbers are the integral ones of magnitude below \<open>10^21\<close>, where \<open>String(n)\<close> is
  the plain decimal numeral (\<open>-0\<close> is \<open>JNum 0\<close>: it is falsy, \<open>-0 === 0\<close> and
  \<open>String(-0)\<close> is \<open>"0"\<close>), and \<open>NaN\<close>.
\<close>

datatype jsval =
    JUndefined
  | JNull
  | JBool bool
  | JNum int
  | JNaN
  | JStr ustr
  | JArr "jsval list"

fun digits :: "nat \<Rightarrow> ustr" where
  "digits n = (if n < 10 then [word_of_nat (48 + n)]
               else digits (n div 10) @ [word_of_nat (48 + n mod 10)])"

declare digits.simps [simp del]

text \<open>\<open>String(v)\<close>; an array joins the string forms of its elements with a comma,
  \<open>null\<close> and \<open>undefined\<close> elements giving the empty string.\<close>

fun to_string :: "jsval \<Rightarrow> ustr" where
  "to_string JUndefined = asc ''undefined''"
| "to_string JNull = asc ''null''"
| "to_string (JBool b) = (if b then asc ''true'' else asc ''false'')"
| "to_string (JNum n) = (if n < 0 then asc ''-'' @ digits (nat (- n)) else digits (nat n))"
| "to_string JNaN = asc ''NaN''"
| "to_string (JStr s) = s"
| "to_string (JArr xs) =
     join (asc '','')
       (map (\<lambda>x. if x = JUndefined \<or> x = JNull then [] else to_string x) xs)"

text \<open>\<open>ToBoolean\<close>: what \<open>!v\<close>, \<open>v || d\<close> and \<open>if (v)\<close> test.\<close>

fun truthy :: "jsval \<Rightarrow> bool" where
  "truthy JUndefined = False"
| "truthy JNull = False"
| "truthy (JBool b) = b"
| "truthy (JNum n) = (n \<noteq> 0)"
| "truthy JNaN = False"
| "truthy (JStr s) = (s \<noteq> [])"
| "truthy (JArr xs) = True"

section \<open>The escaper\<close>

text \<open>\<open>s.replace(/c/g, r)\<close> for a pattern of one literal character \<open>c\<close> and a
  replacement \<open>r\<close> without \<open>$\<close>: every \<open>c\<close> becomes \<open>r\<close>, left to right.\<close>

fun replace_g :: "16 word \<Rightarrow> ustr \<Rightarrow> ustr \<Rightarrow> ustr" where
  "replace_g c r [] = []"
| "replace_g c r (x # xs) = (if x = c then r @ replace_g c r xs else x # replace_g c r xs)"

text \<open>
  \<^verbatim>\<open>
  function esc(str) {
    if (!str && str !== 0) return '';
    return String(str)
      .replace(/&/g, '&amp;')
      .replace(/</g, '&lt;')
      .replace(/>/g, '&gt;')
      .replace(/"/g, '&quot;');
  }
  \<close>
\<close>

definition esc :: "jsval \<Rightarrow> ustr" where
  "esc str =
     (if \<not> truthy str \<and> str \<noteq> JNum 0 then []
      else replace_g 0x22 (asc ''&quot;'')
             (replace_g 0x3E (asc ''&gt;'')
               (replace_g 0x3C (asc ''&lt;'')
                 (replace_g 0x26 (asc ''&amp;'') (to_string str)))))"

text \<open>The contract in the specification's words: each sensitive character is replaced by
  its entity, all at once.\<close>

definition entity :: "16 word \<Rightarrow> ustr" where
  "entity c =
     (if c = 0x26 then asc ''&amp;''
      else if c = 0x3C then asc ''&lt;''
      else if c = 0x3E then asc ''&gt;''
      else if c = 0x22 then asc ''&quot;''
      else [c])"

definition escape_once :: "ustr \<Rightarrow> ustr" where
  "escape_once s = concat (map entity s)"

definition sensitive :: "16 word set" where
  "sensitive = {0x26, 0x3C, 0x3E, 0x22}"

section \<open>The block markup renderer\<close>

text \<open>\<open>String.prototype.split\<close> with a string separator and no limit: the pieces between
  the non-overlapping occurrences of the separator, found left to right. An empty separator
  splits into code units.\<close>

function split_go :: "ustr \<Rightarrow> ustr \<Rightarrow> ustr \<Rightarrow> ustr list" where
  "split_go sep cur [] = [cur]"
| "split_go sep cur (c # cs) =
     (if sep \<noteq> [] \<and> prefix sep (c # cs)
      then cur # split_go sep [] (drop (length sep) (c # cs))
      else split_go sep (cur @ [c]) cs)"
  by pat_completeness auto
termination
  by (relation "measure (\<lambda>(sep, cur, s). length s)") auto

definition split_str :: "ustr \<Rightarrow> ustr \<Rightarrow> ustr list" where
  "split_str sep s = (if sep = [] then map (\<lambda>c. [c]) s else split_go sep [] s)"

text \<open>The class \<open>\d\<close> of a regular expression without the unicode flag, and the class
  \<open>\s\<close>, which is also what \<open>trim\<close> strips: white space and line terminators.\<close>

definition is_digit :: "16 word \<Rightarrow> bool" where
  "is_digit c \<longleftrightarrow> 0x30 \<le> c \<and> c \<le> 0x39"

definition is_space :: "16 word \<Rightarrow> bool" where
  "is_space c \<longleftrightarrow>
     c = 0x09 \<or> c = 0x0A \<or> c = 0x0B \<or> c = 0x0C \<or> c = 0x0D \<or> c = 0x20 \<or> c = 0xA0
     \<or> c = 0x1680 \<or> (0x2000 \<le> c \<and> c \<le> 0x200A) \<or> c = 0x2028 \<or> c = 0x2029
     \<or> c = 0x202F \<or> c = 0x205F \<or> c = 0x3000 \<or> c = 0xFEFF"

definition trim :: "ustr \<Rightarrow> ustr" where
  "trim s = rev (dropWhile is_space (rev (dropWhile is_space s)))"

text \<open>The length of the match of \<open>/^\d+\.\s/\<close> at the start of a line, if there is one:
  all leading digits (at least one), a dot, one white-space character.\<close>

definition ol_match :: "ustr \<Rightarrow> nat option" where
  "ol_match line =
     (let ds = takeWhile is_digit line; rest = dropWhile is_digit line
      in if ds \<noteq> [] \<and> (case rest of d # w # _ \<Rightarrow> d = 0x2E \<and> is_space w | _ \<Rightarrow> False)
         then Some (length ds + 2) else None)"

text \<open>The state of the loop of \<open>renderMarkdown\<close>: the output so far and the two
  open-list flags.\<close>

record md_state =
  html :: ustr
  inOl :: bool
  inUl :: bool

text \<open>
  \<^verbatim>\<open>
  const close = () => {
    if (inOl) { html += '</ol>\n'; inOl = false; }
    if (inUl) { html += '</ul>\n'; inUl = false; }
  };
  \<close>
\<close>

definition close :: "md_state \<Rightarrow> md_state" where
  "close st =
     (let st1 = (if inOl st then st\<lparr>html := html st @ asc ''</ol>\<newline>'', inOl := False\<rparr> else st)
      in if inUl st1 then st1\<lparr>html := html st1 @ asc ''</ul>\<newline>'', inUl := False\<rparr> else st1)"

text \<open>\<open>html += s\<close>.\<close>

definition emit :: "ustr \<Rightarrow> md_state \<Rightarrow> md_state" where
  "emit s st = st\<lparr>html := html st @ s\<rparr>"

text \<open>The body of the loop over the lines, with the source's order of the tests.\<close>

definition md_line :: "md_state \<Rightarrow> ustr \<Rightarrow> md_state" where
  "md_line st line =
     (if prefix (asc ''### '') line then
        emit (asc ''<h3>'' @ esc (JStr (drop 4 line)) @ asc ''</h3>\<newline>'') (close st)
      else if prefix (asc ''## '') line then
        emit (asc ''<h2>'' @ esc (JStr (drop 3 line)) @ asc ''</h2>\<newline>'') (close st)
      else if prefix (asc ''# '') line then
        emit (asc ''<h1>'' @ esc (JStr (drop 2 line)) @ asc ''</h1>\<newline>'') (close st)
      else if ol_match line \<noteq> None then
        (let st1 = (if inUl st then st\<lparr>html := html st @ asc ''</ul>\<newline>'', inUl := False\<rparr>
                    else st);
             st2 = (if \<not> inOl st1 then st1\<lparr>html := html st1 @ asc ''<ol>\<newline>'', inOl := True\<rparr>
                    else st1)
         in emit (asc ''  <li>'' @ esc (JStr (drop (the (ol_match line)) line))
                  @ asc ''</li>\<newline>'') st2)
      else if prefix (asc ''- '') line then
        (let st1 = (if inOl st then st\<lparr>html := html st @ asc ''</ol>\<newline>'', inOl := False\<rparr>
                    else st);
             st2 = (if \<not> inUl st1 then st1\<lparr>html := html st1 @ asc ''<ul>\<newline>'', inUl := True\<rparr>
                    else st1)
         in emit (asc ''  <li>'' @ esc (JStr (drop 2 line)) @ asc ''</li>\<newline>'') st2)
      else if trim line = [] then
        emit (asc ''\<newline>'') (close st)
      else
        emit (asc ''<p>'' @ esc (JStr line) @ asc ''</p>\<newline>'') (close st))"

text \<open>
  \<^verbatim>\<open>
  function renderMarkdown(content) {
    if (!content) return '';
    const lines = content.split('\n');
    let html = ''; let inOl = false; let inUl = false;
    for (const raw of lines) { ... }
    close();
    return html;
  }
  \<close>
\<close>

definition renderMarkdown :: "ustr \<Rightarrow> ustr" where
  "renderMarkdown content =
     (if content = [] then []
      else html (close (foldl md_line \<lparr>html = [], inOl = False, inUl = False\<rparr>
                          (split_str (asc ''\<newline>'') content))))"

text \<open>The number of places of a string where a given tag starts.\<close>

fun occurrences :: "ustr \<Rightarrow> ustr \<Rightarrow> nat" where
  "occurrences tag [] = 0"
| "occurrences tag (c # cs) = (if prefix tag (c # cs) then 1 else 0) + occurrences tag cs"

section \<open>The template substitution engine\<close>

text \<open>
  \<open>GetSubstitution\<close> of ECMAScript for a string pattern (no captures): in the replacement
  text, \<open>$$\<close> stands for a dollar sign, \<open>$&\<close> for the matched text, \<open>$`\<close> for the
  part of the string before the match and \<open>$'\<close> for the part after it; every other
  character, a \<open>$\<close> before anything else included, stands for itself.
\<close>

fun getSubstitution :: "ustr \<Rightarrow> ustr \<Rightarrow> ustr \<Rightarrow> ustr \<Rightarrow> ustr" where
  "getSubstitution matched bef aft [] = []"
| "getSubstitution matched bef aft [c] = [c]"
| "getSubstitution matched bef aft (c # d # rest) =
     (if c = 0x24 \<and> d = 0x24 then 0x24 # getSubstitution matched bef aft rest
      else if c = 0x24 \<and> d = 0x26 then matched @ getSubstitution matched bef aft rest
      else if c = 0x24 \<and> d = 0x60 then bef @ getSubstitution matched bef aft rest
      else if c = 0x24 \<and> d = 0x27 then aft @ getSubstitution matched bef aft rest
      else c # getSubstitution matched bef aft (d # rest))"

text \<open>
  \<open>String.prototype.replaceAll\<close> with a string pattern and a string replacement: the
  occurrences of the pattern are found left to right without overlap in the original
  string, and each is replaced by its substitution. \<open>pre\<close> is the part of the string
  already passed. An empty pattern matches before every code unit and at the end.
\<close>

function replaceAll_go :: "ustr \<Rightarrow> ustr \<Rightarrow> ustr \<Rightarrow> ustr \<Rightarrow> ustr" where
  "replaceAll_go pat repl pre [] = []"
| "replaceAll_go pat repl pre (c # cs) =
     (if pat \<noteq> [] \<and> prefix pat (c # cs)
      then getSubstitution pat pre (drop (length pat) (c # cs)) repl
           @ replaceAll_go pat repl (pre @ pat) (drop (length pat) (c # cs))
      else c # replaceAll_go pat repl (pre @ [c]) cs)"
  by pat_completeness auto
termination
  by (relation "measure (\<lambda>(pat, repl, pre, s). length s)") auto

fun replaceAll_empty :: "ustr \<Rightarrow> ustr \<Rightarrow> ustr \<Rightarrow> ustr" where
  "replaceAll_empty repl pre [] = getSubstitution [] pre [] repl"
| "replaceAll_empty repl pre (c # cs) =
     getSubstitution [] pre (c # cs) repl @ c # replaceAll_empty repl (pre @ [c]) cs"

definition replaceAll :: "ustr \<Rightarrow> ustr \<Rightarrow> ustr \<Rightarrow> ustr" where
  "replaceAll s pat repl =
     (if pat = [] then replaceAll_empty repl [] s else replaceAll_go pat repl [] s)"

text \<open>The placeholder token of a key, \<^verbatim>\<open>`{{${key}}}`\<close>.\<close>

definition token :: "ustr \<Rightarrow> ustr" where
  "token key = asc ''{{'' @ key @ asc ''}}''"

text \<open>\<open>val ?? ''\<close>, converted to a string by \<open>replaceAll\<close>.\<close>

definition value_text :: "jsval \<Rightarrow> ustr" where
  "value_text val = (if val = JNull \<or> val = JUndefined then [] else to_string val)"

text \<open>
  \<^verbatim>\<open>
  function render(templateStr, vars) {
    let result = templateStr;
    for (const [key, val] of Object.entries(vars)) {
      result = result.replaceAll(`{{${key}}}`, val ?? '');
    }
    return result;
  }
  \<close>
  The mapping is the list \<open>Object.entries(vars)\<close>, in its order of enumeration.
\<close>

definition render :: "ustr \<Rightarrow> (ustr \<times> jsval) list \<Rightarrow> ustr" where
  "render templateStr vars =
     foldl (\<lambda>result (key, val). replaceAll result (token key) (value_text val)) templateStr vars"



section \<open>The post loader\<close>

text \<open>The metadata of a content item as the frontmatter parser returns it; an absent field
  is \<open>undefined\<close>. The parser itself is a parameter of the loader, a function from the
  text of a file to the metadata and the body.\<close>

record frontmatter =
  fm_title :: jsval
  fm_date :: jsval
  fm_author :: jsval
  fm_draft :: jsval
  fm_excerpt :: jsval
  fm_tags :: jsval

record parsed =
  parsed_data :: frontmatter
  parsed_content :: ustr

record post =
  slug :: ustr
  title :: jsval
  date :: ustr
  author :: jsval
  excerpt :: jsval
  tags :: "jsval list"
  content :: ustr

text \<open>The fatal exit of the loader: the blog, the file and the names of the missing
  fields.\<close>

datatype error = MissingFrontmatter ustr ustr "ustr list"

definition endsWith :: "ustr \<Rightarrow> ustr \<Rightarrow> bool" where
  "endsWith s suf = suffix suf s"

text \<open>The loop over the directory entries (file name and file text, in the order of
  \<open>readdirSync\<close>); \<open>posts\<close> is the array built so far.\<close>

fun load_loop :: "ustr \<Rightarrow> (ustr \<Rightarrow> parsed) \<Rightarrow> (ustr \<times> ustr) list \<Rightarrow> post list
    \<Rightarrow> error + post list" where
  "load_loop blogSlug matter [] posts = Inr posts"
| "load_loop blogSlug matter ((file, raw) # rest) posts =
     (if \<not> endsWith file (asc ''.md'') then load_loop blogSlug matter rest posts
      else
        let parsed = matter raw;
            fm = parsed_data parsed;
            missing = (if \<not> truthy (fm_title fm) then [asc ''title''] else [])
                    @ (if \<not> truthy (fm_date fm) then [asc ''date''] else [])
                    @ (if \<not> truthy (fm_author fm) then [asc ''author''] else [])
        in if missing \<noteq> [] then Inl (MissingFrontmatter blogSlug file missing)
           else if truthy (fm_draft fm) then load_loop blogSlug matter rest posts
           else load_loop blogSlug matter rest
                  (posts @ [\<lparr>slug = take (length file - 3) file,
                             title = fm_title fm,
                             date = take 10 (to_string (fm_date fm)),
                             author = fm_author fm,
                             excerpt = (if truthy (fm_excerpt fm) then fm_excerpt fm else JStr []),
                             tags = (case fm_tags fm of JArr ts \<Rightarrow> ts | _ \<Rightarrow> []),
                             content = parsed_content parsed\<rparr>]))"

text \<open>
  \<open>Array.prototype.sort\<close> belongs to the runtime. ECMAScript fixes its result when the
  comparator is consistent: the elements in an order the comparator agrees with. It is
  modelled by an insertion sort that asks the comparator; \<open>0 < cmp y x\<close> puts \<open>x\<close>
  before \<open>y\<close>.
\<close>

fun insort_cmp :: "('a \<Rightarrow> 'a \<Rightarrow> int) \<Rightarrow> 'a \<Rightarrow> 'a list \<Rightarrow> 'a list" where
  "insort_cmp cmp x [] = [x]"
| "insort_cmp cmp x (y # ys) = (if 0 < cmp y x then x # y # ys else y # insort_cmp cmp x ys)"

definition sort_cmp :: "('a \<Rightarrow> 'a \<Rightarrow> int) \<Rightarrow> 'a list \<Rightarrow> 'a list" where
  "sort_cmp cmp xs = foldl (\<lambda>acc x. insort_cmp cmp x acc) [] xs"

text \<open>\<open>(a, b) => (a.date < b.date ? 1 : -1)\<close>\<close>

definition date_desc :: "post \<Rightarrow> post \<Rightarrow> int" where
  "date_desc a b = (if date a < date b then 1 else - 1)"

text \<open>
  \<open>loadPosts(blogSlug, matter)\<close>. The posts directory of the blog is \<open>None\<close> when it
  does not exist, and otherwise the list of its entries.
\<close>

definition loadPosts :: "ustr \<Rightarrow> (ustr \<Rightarrow> parsed) \<Rightarrow> (ustr \<times> ustr) list option
    \<Rightarrow> error + post list" where
  "loadPosts blogSlug matter postsDir =
     (case postsDir of
        None \<Rightarrow> Inr []
      | Some entries \<Rightarrow>
          (case load_loop blogSlug matter entries [] of
             Inl e \<Rightarrow> Inl e
           | Inr posts \<Rightarrow> Inr (sort_cmp date_desc posts)))"

section \<open>The theme fragment builders\<close>

text \<open>
  The theme is the value of \<open>blog.theme || 'word-retro'\<close>; the builders compare it with
  \<open>===\<close> against the names of the ten named variants, and every other value takes the last
  branch, the one of the default theme \<open>word-retro\<close>. Text of the templates outside ASCII
  is written as its UTF-16 code units.
\<close>

text \<open>\<open>array.join(sep)\<close>: \<open>null\<close> and \<open>undefined\<close> elements give the empty string.\<close>

definition array_join :: "ustr \<Rightarrow> jsval list \<Rightarrow> ustr" where
  "array_join sep xs =
     join sep (map (\<lambda>x. if x = JUndefined \<or> x = JNull then [] else to_string x) xs)"

text \<open>\<open>[...new Set(xs)]\<close>: the values in the order of their first occurrence. A \<open>Set\<close>
  compares with SameValueZero: primitive values by value (\<open>NaN\<close> equals itself), arrays by
  identity, and the arrays of parsed metadata are distinct objects.\<close>

definition same_value_zero :: "jsval \<Rightarrow> jsval \<Rightarrow> bool" where
  "same_value_zero a b = (case a of JArr _ \<Rightarrow> False | _ \<Rightarrow> a = b)"

definition set_values :: "jsval list \<Rightarrow> jsval list" where
  "set_values xs =
     foldl (\<lambda>seen x. if list_ex (\<lambda>y. same_value_zero y x) seen then seen else seen @ [x]) [] xs"

text \<open>The card of one post: the function mapped over the posts by
  \<open>buildPostListHtml\<close>. Its local constant \<open>tags\<close>, the tags joined with commas, is
  \<open>joined\<close> here.\<close>

definition post_card :: "jsval \<Rightarrow> post \<Rightarrow> ustr" where
  \<open>post_card theme post =
     (let joined = array_join (asc '','') (tags post)
      in if theme = JStr (asc ''retro-cosmic'') then
        trim (asc ''\<newline>''
              @ asc ''<a href="posts/'' @ esc (JStr (slug post))
              @ asc ''.html" class="cosmic-post-card" data-post-tags="'' @ esc (JStr joined)
              @ asc ''">\<newline>''
              @ asc ''  <div style="display:flex;justify-content:space-between;align-items:start;margin-bottom:6px">\<newline>''
              @ asc ''    <div class="cosmic-card-title">'' @ esc (title post)
              @ asc ''</div>\<newline>''
              @ asc ''    <span style="font-size:0.85rem;color:#666;white-space:nowrap;margin-left:12px">''
              @ [0xD83D, 0xDCC5] @ asc '' '' @ esc (JStr (date post))
              @ asc ''</span>\<newline>''
              @ asc ''  </div>\<newline>''
              @ asc ''  <p class="cosmic-card-excerpt">'' @ esc (excerpt post)
              @ asc ''</p>\<newline>''
              @ asc ''  <div style="display:flex;justify-content:space-between;align-items:center;margin-top:8px">\<newline>''
              @ asc ''    <span class="cosmic-card-meta">'' @ [0x270D, 0xFE0F] @ asc '' ''
              @ esc (author post) @ asc ''</span>\<newline>''
              @ asc ''    <div>''
              @ concat (map (\<lambda>t. asc ''<span class="cosmic-tag">#'' @ esc t @ asc ''</span>'') (tags post))
              @ asc ''</div>\<newline>''
              @ asc ''  </div>\<newline>''
              @ asc ''</a>'')
      else if theme = JStr (asc ''gym-log'') then
        trim (asc ''\<newline>''
              @ asc ''<a href="posts/'' @ esc (JStr (slug post))
              @ asc ''.html" class="gym-post-card" data-post-tags="'' @ esc (JStr joined)
              @ asc ''">\<newline>''
              @ asc ''  <div style="display:flex;justify-content:space-between;align-items:start;margin-bottom:6px">\<newline>''
              @ asc ''    <div class="gym-card-title">'' @ esc (title post)
              @ asc ''</div>\<newline>''
              @ asc ''    <span class="gym-card-date">'' @ [0xD83D, 0xDCC5] @ asc '' ''
              @ esc (JStr (date post)) @ asc ''</span>\<newline>''
              @ asc ''  </div>\<newline>''
              @ asc ''  <p class="gym-card-excerpt">'' @ esc (excerpt post)
              @ asc ''</p>\<newline>''
              @ asc ''  <div style="display:flex;justify-content:space-between;align-items:center;margin-top:8px">\<newline>''
              @ asc ''    <span class="gym-card-meta">'' @ [0x270D, 0xFE0F] @ asc '' ''
              @ esc (author post) @ asc ''</span>\<newline>''
              @ asc ''    <div>''
              @ concat (map (\<lambda>t. asc ''<span class="gym-tag">#'' @ esc t @ asc ''</span>'') (tags post))
              @ asc ''</div>\<newline>''
              @ asc ''  </div>\<newline>''
              @ asc ''</a>'')
      else if theme = JStr (asc ''love-column'') then
        trim (asc ''\<newline>''
              @ asc ''<a href="posts/'' @ esc (JStr (slug post))
              @ asc ''.html" class="love-post-card" data-post-tags="'' @ esc (JStr joined)
              @ asc ''">\<newline>''
              @ asc ''  <div style="display:flex;justify-content:space-between;align-items:start;margin-bottom:6px">\<newline>''
              @ asc ''    <div class="love-card-title">'' @ esc (title post)
              @ asc ''</div>\<newline>''
              @ asc ''    <span class="love-card-date">'' @ [0xD83D, 0xDCC5] @ asc '' ''
              @ esc (JStr (date post)) @ asc ''</span>\<newline>''
              @ asc ''  </div>\<newline>''
              @ asc ''  <p class="love-card-excerpt">'' @ esc (excerpt post)
              @ asc ''</p>\<newline>''
              @ asc ''  <div style="display:flex;justify-content:space-between;align-items:center;margin-top:8px">\<newline>''
              @ asc ''    <span class="love-card-meta">'' @ [0x270D, 0xFE0F] @ asc '' ''
              @ esc (author post) @ asc ''</span>\<newline>''
              @ asc ''    <div>''
              @ concat (map (\<lambda>t. asc ''<span class="love-tag">#'' @ esc t @ asc ''</span>'') (tags post))
              @ asc ''</div>\<newline>''
              @ asc ''  </div>\<newline>''
              @ asc ''</a>'')
      else if theme = JStr (asc ''izakaya'') then
        trim (asc ''\<newline>''
              @ asc ''<a href="posts/'' @ esc (JStr (slug post))
              @ asc ''.html" class="izakaya-post-card" data-post-tags="''
              @ esc (JStr joined) @ asc ''">\<newline>''
              @ asc ''  <div style="display:flex;justify-content:space-between;align-items:start;margin-bottom:6px">\<newline>''
              @ asc ''    <div class="izakaya-card-title">'' @ esc (title post)
              @ asc ''</div>\<newline>''
              @ asc ''    <span class="izakaya-card-date">'' @ [0xD83D, 0xDCC5] @ asc '' ''
              @ esc (JStr (date post)) @ asc ''</span>\<newline>''
              @ asc ''  </div>\<newline>''
              @ asc ''  <p class="izakaya-card-excerpt">'' @ esc (excerpt post)
              @ asc ''</p>\<newline>''
              @ asc ''  <div style="display:flex;justify-content:space-between;align-items:center;margin-top:8px">\<newline>''
              @ asc ''    <span class="izakaya-card-meta">'' @ [0x270D, 0xFE0F] @ asc '' ''
              @ esc (author post) @ asc ''</span>\<newline>''
              @ asc ''    <div>''
              @ concat (map (\<lambda>t. asc ''<span class="izakaya-tag">#'' @ esc t @ asc ''</span>'') (tags post))
              @ asc ''</div>\<newline>''
              @ asc ''  </div>\<newline>''
              @ asc ''</a>'')
      else if theme = JStr (asc ''onsen-cosmos'') then
        trim (asc ''\<newline>''
              @ asc ''<a href="posts/'' @ esc (JStr (slug post))
              @ asc ''.html" class="onsen-post-card" data-post-tags="'' @ esc (JStr joined)
              @ asc ''">\<newline>''
              @ asc ''  <div style="display:flex;justify-content:space-between;align-items:start;margin-bottom:6px">\<newline>''
              @ asc ''    <div class="onsen-card-title">'' @ esc (title post)
              @ asc ''</div>\<newline>''
              @ asc ''    <span class="onsen-card-date">'' @ [0xD83C, 0xDF19] @ asc '' ''
              @ esc (JStr (date post)) @ asc ''</span>\<newline>''
              @ asc ''  </div>\<newline>''
              @ asc ''  <p class="onsen-card-excerpt">'' @ esc (excerpt post)
              @ asc ''</p>\<newline>''
              @ asc ''  <div style="display:flex;justify-content:space-between;align-items:center;margin-top:8px">\<newline>''
              @ asc ''    <span class="onsen-card-meta">'' @ [0x270D, 0xFE0F] @ asc '' ''
              @ esc (author post) @ asc ''</span>\<newline>''
              @ asc ''    <div>''
              @ concat (map (\<lambda>t. asc ''<span class="onsen-tag">#'' @ esc t @ asc ''</span>'') (tags post))
              @ asc ''</div>\<newline>''
              @ asc ''  </div>\<newline>''
              @ asc ''</a>'')
      else if theme = JStr (asc ''comedy-zine'') then
        trim (asc ''\<newline>''
              @ asc ''<a href="posts/'' @ esc (JStr (slug post))
              @ asc ''.html" class="zine-post-card" data-post-tags="'' @ esc (JStr joined)
              @ asc ''">\<newline>''
              @ asc ''  <div style="display:flex;justify-content:space-between;align-items:start;margin-bottom:6px">\<newline>''
              @ asc ''    <div class="zine-card-title">'' @ esc (title post)
              @ asc ''</div>\<newline>''
              @ asc ''    <span class="zine-card-date">'' @ esc (JStr (date post))
              @ asc ''</span>\<newline>''
              @ asc ''  </div>\<newline>''
              @ asc ''  <p class="zine-card-excerpt">'' @ esc (excerpt post)
              @ asc ''</p>\<newline>''
              @ asc ''  <div style="display:flex;justify-content:space-between;align-items:center;margin-top:8px">\<newline>''
              @ asc ''    <span class="zine-card-meta">'' @ [0x270D, 0xFE0F] @ asc '' ''
              @ esc (author post) @ asc ''</span>\<newline>''
              @ asc ''    <div>''
              @ concat (map (\<lambda>t. asc ''<span class="zine-tag">#'' @ esc t @ asc ''</span>'') (tags post))
              @ asc ''</div>\<newline>''
              @ asc ''  </div>\<newline>''
              @ asc ''</a>'')
      else if theme = JStr (asc ''academy-log'') then
        trim (asc ''\<newline>''
              @ asc ''<a href="posts/'' @ esc (JStr (slug post))
              @ asc ''.html" class="academy-post-card" data-post-tags="''
              @ esc (JStr joined) @ asc ''">\<newline>''
              @ asc ''  <div style="display:flex;justify-content:space-between;align-items:start;margin-bottom:6px">\<newline>''
              @ asc ''    <div class="academy-card-title">'' @ esc (title post)
              @ asc ''</div>\<newline>''
              @ asc ''    <span class="academy-card-date">'' @ [0xD83D, 0xDCC5] @ asc '' ''
              @ esc (JStr (date post)) @ asc ''</span>\<newline>''
              @ asc ''  </div>\<newline>''
              @ asc ''  <p class="academy-card-excerpt">'' @ esc (excerpt post)
              @ asc ''</p>\<newline>''
              @ asc ''  <div style="display:flex;justify-content:space-between;align-items:center;margin-top:8px">\<newline>''
              @ asc ''    <span class="academy-card-meta">'' @ [0x270D, 0xFE0F] @ asc '' ''
              @ esc (author post) @ asc ''</span>\<newline>''
              @ asc ''    <div>''
              @ concat (map (\<lambda>t. asc ''<span class="academy-tag">#'' @ esc t @ asc ''</span>'') (tags post))
              @ asc ''</div>\<newline>''
              @ asc ''  </div>\<newline>''
              @ asc ''</a>'')
      else if theme = JStr (asc ''terminal'') then
        trim (asc ''\<newline>''
              @ asc ''<a href="posts/'' @ esc (JStr (slug post))
              @ asc ''.html" class="term-post-entry" data-post-tags="'' @ esc (JStr joined)
              @ asc ''">\<newline>''
              @ asc ''  <span class="term-post-date">'' @ esc (JStr (date post))
              @ asc ''</span>\<newline>''
              @ asc ''  <span class="term-post-author">'' @ esc (author post)
              @ asc ''</span>\<newline>''
              @ asc ''  <span class="term-post-title">'' @ esc (title post)
              @ asc ''</span>\<newline>''
              @ asc ''  <div class="term-post-excerpt">'' @ esc (excerpt post)
              @ asc ''</div>\<newline>''
              @ asc ''  <div class="term-post-tags">''
              @ concat (map (\<lambda>t. asc ''<span class="term-tag">#'' @ esc t @ asc ''</span>'') (tags post))
              @ asc ''</div>\<newline>''
              @ asc ''</a>'')
      else if theme = JStr (asc ''kawase-blog'') then
        trim (asc ''\<newline>''
              @ asc ''<a href="posts/'' @ esc (JStr (slug post))
              @ asc ''.html" class="kawase-post-card" data-post-tags="'' @ esc (JStr joined)
              @ asc ''">\<newline>''
              @ asc ''  <div class="kawase-card-date">'' @ [0xD83D, 0xDCC5] @ asc '' ''
              @ esc (JStr (date post)) @ asc ''</div>\<newline>''
              @ asc ''  <div class="kawase-card-title">'' @ esc (title post)
              @ asc ''</div>\<newline>''
              @ asc ''  <p class="kawase-card-excerpt">'' @ esc (excerpt post)
              @ asc ''</p>\<newline>''
              @ asc ''  <div class="kawase-card-footer">\<newline>''
              @ asc ''    <span class="kawase-card-meta">'' @ [0x270D, 0xFE0F] @ asc '' ''
              @ esc (author post) @ asc ''</span>\<newline>''
              @ asc ''    <div class="kawase-card-tags">''
              @ concat (map (\<lambda>t. asc ''<span class="kawase-tag">#'' @ esc t @ asc ''</span>'') (tags post))
              @ asc ''</div>\<newline>''
              @ asc ''  </div>\<newline>''
              @ asc ''</a>'')
      else if theme = JStr (asc ''sake-modern'') then
        trim (asc ''\<newline>''
              @ asc ''<a href="posts/'' @ esc (JStr (slug post))
              @ asc ''.html" class="sake-post-card" data-post-tags="'' @ esc (JStr joined)
              @ asc ''">\<newline>''
              @ asc ''  <div class="sake-card-date">'' @ [0xD83D, 0xDCC5] @ asc '' ''
              @ esc (JStr (date post)) @ asc ''</div>\<newline>''
              @ asc ''  <div class="sake-card-title">'' @ esc (title post)
              @ asc ''</div>\<newline>''
              @ asc ''  <p class="sake-card-excerpt">'' @ esc (excerpt post)
              @ asc ''</p>\<newline>''
              @ asc ''  <div class="sake-card-footer">\<newline>''
              @ asc ''    <span class="sake-card-meta">'' @ [0x270D, 0xFE0F] @ asc '' ''
              @ esc (author post) @ asc ''</span>\<newline>''
              @ asc ''    <div class="sake-card-tags">''
              @ concat (map (\<lambda>t. asc ''<span class="sake-tag">#'' @ esc t @ asc ''</span>'') (tags post))
              @ asc ''</div>\<newline>''
              @ asc ''  </div>\<newline>''
              @ asc ''</a>'')
      else
        trim (asc ''\<newline>''
              @ asc ''<a href="posts/'' @ esc (JStr (slug post))
              @ asc ''.html" class="word-blog-entry" data-post-tags="'' @ esc (JStr joined)
              @ asc ''">\<newline>''
              @ asc ''  <div style="display:flex;justify-content:space-between;align-items:start;margin-bottom:6px">\<newline>''
              @ asc ''    <div class="word-blog-entry-title">'' @ esc (title post)
              @ asc ''</div>\<newline>''
              @ asc ''    <span style="font-size:0.85rem;color:#666;white-space:nowrap;margin-left:12px">''
              @ [0xD83D, 0xDCC5] @ asc '' '' @ esc (JStr (date post))
              @ asc ''</span>\<newline>''
              @ asc ''  </div>\<newline>''
              @ asc ''  <p class="word-blog-excerpt" style="margin-bottom:8px">''
              @ esc (excerpt post) @ asc ''</p>\<newline>''
              @ asc ''  <div style="display:flex;justify-content:space-between;align-items:center;flex-wrap:wrap;gap:8px">\<newline>''
              @ asc ''    <span style="font-size:0.85rem;color:#666">'' @ [0x270D, 0xFE0F]
              @ asc '' '' @ esc (author post) @ asc ''</span>\<newline>''
              @ asc ''    <div>''
              @ concat (map (\<lambda>t. asc ''<span class="word-tag">#'' @ esc t @ asc ''</span>'') (tags post))
              @ asc ''</div>\<newline>''
              @ asc ''  </div>\<newline>''
              @ asc ''</a>''))\<close>

text \<open>\<open>buildPostListHtml(posts, blogSlug, theme)\<close>\<close>

definition buildPostListHtml :: "post list \<Rightarrow> ustr \<Rightarrow> jsval \<Rightarrow> ustr" where
  \<open>buildPostListHtml posts blogSlug theme =
     (if length posts = 0 then
        asc ''<p style="color:#999;padding:20px 0">'' @ [0x8A18, 0x4E8B, 0x304C, 0x307E, 0x3060, 0x3042, 0x308A, 0x307E, 0x305B, 0x3093] @ asc ''</p>''
      else join (asc ''\<newline>'') (map (post_card theme) posts))\<close>

text \<open>\<open>buildTagFilterHtml(posts, theme)\<close>\<close>

definition buildTagFilterHtml :: "post list \<Rightarrow> jsval \<Rightarrow> ustr" where
  \<open>buildTagFilterHtml posts theme =
     (let allTags = set_values (concat (map tags posts))
      in if length allTags = 0 then []
      else if theme = JStr (asc ''retro-cosmic'') then
        (let allBtn = asc ''<button data-tag-btn="__all__" class="cosmic-tag cosmic-tag-active">''
                    @ [0x3059, 0x3079, 0x3066] @ asc ''</button>'';
             tagBtns = concat (map (\<lambda>t. asc ''<button data-tag-btn="'' @ esc t
                       @ asc ''" class="cosmic-tag">#'' @ esc t @ asc ''</button>'') allTags)
         in asc ''<div class="cosmic-tag-filter">\<newline>''
            @ asc ''  <div class="cosmic-tag-filter-heading">'' @ [0xD83C, 0xDFF7, 0xFE0F]
            @ asc '' '' @ [0x30BF, 0x30B0, 0x3067, 0x7D5E, 0x308A, 0x8FBC, 0x307F]
            @ asc ''</div>\<newline>''
            @ asc ''  <div style="display:flex;gap:6px;flex-wrap:wrap">'' @ allBtn @ tagBtns
            @ asc ''</div>\<newline>''
            @ asc ''</div>\<newline>''
            @ asc ''<div class="retro-separator"></div>'')
      else if theme = JStr (asc ''gym-log'') then
        (let allBtn = asc ''<button data-tag-btn="__all__" class="gym-tag" style="border-color:#ff4400;color:#ff4400">ALL</button>'';
             tagBtns = concat (map (\<lambda>t. asc ''<button data-tag-btn="'' @ esc t @ asc ''" class="gym-tag">#''
                       @ esc t @ asc ''</button>'') allTags)
         in asc ''<div class="gym-tag-filter">\<newline>''
            @ asc ''  <div class="gym-tag-filter-heading">'' @ [0x25C6]
            @ asc '' FILTER BY TAG</div>\<newline>''
            @ asc ''  <div style="display:flex;gap:6px;flex-wrap:wrap">'' @ allBtn @ tagBtns
            @ asc ''</div>\<newline>''
            @ asc ''</div>'')
      else if theme = JStr (asc ''love-column'') then
        (let allBtn = asc ''<button data-tag-btn="__all__" class="love-tag" style="background:#ff8fab;border-color:#ff8fab;color:white">''
                    @ [0x3059, 0x3079, 0x3066] @ asc '' '' @ [0x2665] @ asc ''</button>'';
             tagBtns = concat (map (\<lambda>t. asc ''<button data-tag-btn="'' @ esc t @ asc ''" class="love-tag">#''
                       @ esc t @ asc ''</button>'') allTags)
         in asc ''<div class="love-tag-filter">\<newline>''
            @ asc ''  <div class="love-tag-filter-heading">'' @ [0x2665] @ asc '' ''
            @ [0x30BF, 0x30B0, 0x3067, 0x7D5E, 0x308A, 0x8FBC, 0x307F]
            @ asc ''</div>\<newline>''
            @ asc ''  <div style="display:flex;gap:6px;flex-wrap:wrap;justify-content:center">''
            @ allBtn @ tagBtns @ asc ''</div>\<newline>''
            @ asc ''</div>'')
      else if theme = JStr (asc ''izakaya'') then
        (let allBtn = asc ''<button data-tag-btn="__all__" class="izakaya-tag" style="border-color:#d4a058;color:#f0b830">''
                    @ [0x3059, 0x3079, 0x3066] @ asc ''</button>'';
             tagBtns = concat (map (\<lambda>t. asc ''<button data-tag-btn="'' @ esc t
                       @ asc ''" class="izakaya-tag">#'' @ esc t @ asc ''</button>'') allTags)
         in asc ''<div class="izakaya-tag-filter">\<newline>''
            @ asc ''  <div class="izakaya-tag-filter-heading">'' @ [0x3014] @ asc '' ''
            @ [0x7A2E, 0x985E, 0x3067, 0x7D5E, 0x308A, 0x8FBC, 0x3080] @ asc '' ''
            @ [0x3015] @ asc ''</div>\<newline>''
            @ asc ''  <div style="display:flex;gap:6px;flex-wrap:wrap">'' @ allBtn @ tagBtns
            @ asc ''</div>\<newline>''
            @ asc ''</div>'')
      else if theme = JStr (asc ''onsen-cosmos'') then
        (let allBtn = asc ''<button data-tag-btn="__all__" class="onsen-tag" style="border-color:#c8a060;color:#f0d090">''
                    @ [0x3059, 0x3079, 0x3066] @ asc '' '' @ [0x2726] @ asc ''</button>'';
             tagBtns = concat (map (\<lambda>t. asc ''<button data-tag-btn="'' @ esc t
                       @ asc ''" class="onsen-tag">#'' @ esc t @ asc ''</button>'') allTags)
         in asc ''<div class="onsen-tag-filter">\<newline>''
            @ asc ''  <div class="onsen-tag-filter-heading">'' @ [0x2726] @ asc '' ''
            @ [0x30BF, 0x30B0, 0x3067, 0x7D5E, 0x308A, 0x8FBC, 0x307F]
            @ asc ''</div>\<newline>''
            @ asc ''  <div style="display:flex;gap:6px;flex-wrap:wrap;justify-content:center">''
            @ allBtn @ tagBtns @ asc ''</div>\<newline>''
            @ asc ''</div>'')
      else if theme = JStr (asc ''comedy-zine'') then
        (let allBtn = asc ''<button data-tag-btn="__all__" class="zine-tag" style="background:#111;color:#ffe600;border-color:#111">ALL</button>'';
             tagBtns = concat (map (\<lambda>t. asc ''<button data-tag-btn="'' @ esc t @ asc ''" class="zine-tag">#''
                       @ esc t @ asc ''</button>'') allTags)
         in asc ''<div class="zine-tag-filter">\<newline>''
            @ asc ''  <div class="zine-tag-filter-heading">'' @ [0x25C6]
            @ asc '' FILTER BY TAG</div>\<newline>''
            @ asc ''  <div style="display:flex;gap:6px;flex-wrap:wrap">'' @ allBtn @ tagBtns
            @ asc ''</div>\<newline>''
            @ asc ''</div>'')
      else if theme = JStr (asc ''academy-log'') then
        (let allBtn = asc ''<button data-tag-btn="__all__" class="academy-tag" style="border-color:#4a9eff;color:#7ac8ff">ALL</button>'';
             tagBtns = concat (map (\<lambda>t. asc ''<button data-tag-btn="'' @ esc t
                       @ asc ''" class="academy-tag">#'' @ esc t @ asc ''</button>'') allTags)
         in asc ''<div class="academy-tag-filter">\<newline>''
            @ asc ''  <div class="academy-tag-filter-heading">'' @ [0x25C6]
            @ asc '' FILTER BY TAG</div>\<newline>''
            @ asc ''  <div style="display:flex;gap:6px;flex-wrap:wrap">'' @ allBtn @ tagBtns
            @ asc ''</div>\<newline>''
            @ asc ''</div>'')
      else if theme = JStr (asc ''terminal'') then
        (let allBtn = asc ''<button data-tag-btn="__all__" class="term-tag term-tag-active">*</button>'';
             tagBtns = concat (map (\<lambda>t. asc ''<button data-tag-btn="'' @ esc t @ asc ''" class="term-tag">#''
                       @ esc t @ asc ''</button>'') allTags)
         in asc ''<div class="term-tag-filter term-block" style="padding:10px">\<newline>''
            @ asc ''  <span class="term-prompt-mini">$</span> grep --tag:\<newline>''
            @ asc ''  <div style="display:flex;gap:6px;flex-wrap:wrap;margin-top:8px">''
            @ allBtn @ tagBtns @ asc ''</div>\<newline>''
            @ asc ''</div>'')
      else if theme = JStr (asc ''kawase-blog'') then
        (let allBtn = asc ''<button data-tag-btn="__all__" class="kawase-tag kawase-tag-active">''
                    @ [0x3059, 0x3079, 0x3066] @ asc ''</button>'';
             tagBtns = concat (map (\<lambda>t. asc ''<button data-tag-btn="'' @ esc t
                       @ asc ''" class="kawase-tag">#'' @ esc t @ asc ''</button>'') allTags)
         in asc ''<div class="kawase-tag-filter">\<newline>''
            @ asc ''  <div class="kawase-tag-filter-heading">'' @ [0x2726] @ asc '' ''
            @ [0x30BF, 0x30B0, 0x3067, 0x7D5E, 0x308A, 0x8FBC, 0x307F]
            @ asc ''</div>\<newline>''
            @ asc ''  <div class="kawase-tag-filter-wrap">'' @ allBtn @ tagBtns
            @ asc ''</div>\<newline>''
            @ asc ''</div>'')
      else if theme = JStr (asc ''sake-modern'') then
        (let allBtn = asc ''<button data-tag-btn="__all__" class="sake-tag sake-tag-active">''
                    @ [0x3059, 0x3079, 0x3066] @ asc ''</button>'';
             tagBtns = concat (map (\<lambda>t. asc ''<button data-tag-btn="'' @ esc t @ asc ''" class="sake-tag">#''
                       @ esc t @ asc ''</button>'') allTags)
         in asc ''<div class="sake-tag-filter">\<newline>''
            @ asc ''  <div class="sake-tag-filter-heading">'' @ [0x2726] @ asc '' ''
            @ [0x30BF, 0x30B0, 0x3067, 0x7D5E, 0x308A, 0x8FBC, 0x307F]
            @ asc ''</div>\<newline>''
            @ asc ''  <div class="sake-tag-filter-wrap">'' @ allBtn @ tagBtns
            @ asc ''</div>\<newline>''
            @ asc ''</div>'')
      else
        (let allBtn = asc ''<button data-tag-btn="__all__" class="word-tag word-tag-active">''
                    @ [0x3059, 0x3079, 0x3066] @ asc ''</button>'';
             tagBtns = concat (map (\<lambda>t. asc ''<button data-tag-btn="'' @ esc t @ asc ''" class="word-tag">#''
                       @ esc t @ asc ''</button>'') allTags)
         in asc ''<div class="word-section">\<newline>''
            @ asc ''  <div class="word-section-heading">'' @ [0xD83C, 0xDFF7, 0xFE0F]
            @ asc '' '' @ [0x30BF, 0x30B0, 0x3067, 0x7D5E, 0x308A, 0x8FBC, 0x307F]
            @ asc ''</div>\<newline>''
            @ asc ''  <div style="display:flex;gap:6px;flex-wrap:wrap">'' @ allBtn @ tagBtns
            @ asc ''</div>\<newline>''
            @ asc ''</div>\<newline>''
            @ asc ''<div class="word-section-break"></div>''))\<close>

text \<open>\<open>buildNavCard(post, label, blogSlug, theme)\<close>; the neighbouring post is \<open>None\<close>
  when the source passes \<open>null\<close>.\<close>

definition buildNavCard :: "post option \<Rightarrow> ustr \<Rightarrow> ustr \<Rightarrow> jsval \<Rightarrow> ustr" where
  \<open>buildNavCard neighbour label blogSlug theme =
     (case neighbour of
        None \<Rightarrow> asc ''<div></div>''
      | Some post \<Rightarrow>
         (if theme = JStr (asc ''retro-cosmic'') then
            asc ''<a href="'' @ esc (JStr (slug post))
              @ asc ''.html" class="cosmic-nav-card">\<newline>''
              @ asc ''  <div class="cosmic-nav-label">'' @ esc (JStr label)
              @ asc ''</div>\<newline>''
              @ asc ''  <div class="cosmic-nav-title">'' @ esc (title post)
              @ asc ''</div>\<newline>''
              @ asc ''  <div class="cosmic-nav-date">'' @ esc (JStr (date post))
              @ asc ''</div>\<newline>''
              @ asc ''</a>''
          else if theme = JStr (asc ''gym-log'') then
            asc ''<a href="'' @ esc (JStr (slug post))
              @ asc ''.html" class="gym-nav-card">\<newline>''
              @ asc ''  <div class="gym-nav-label">'' @ esc (JStr label)
              @ asc ''</div>\<newline>''
              @ asc ''  <div class="gym-nav-title">'' @ esc (title post)
              @ asc ''</div>\<newline>''
              @ asc ''  <div class="gym-nav-date">'' @ esc (JStr (date post))
              @ asc ''</div>\<newline>''
              @ asc ''</a>''
          else if theme = JStr (asc ''love-column'') then
            asc ''<a href="'' @ esc (JStr (slug post))
              @ asc ''.html" class="love-nav-card">\<newline>''
              @ asc ''  <div class="love-nav-label">'' @ esc (JStr label)
              @ asc ''</div>\<newline>''
              @ asc ''  <div class="love-nav-title">'' @ esc (title post)
              @ asc ''</div>\<newline>''
              @ asc ''  <div class="love-nav-date">'' @ esc (JStr (date post))
              @ asc ''</div>\<newline>''
              @ asc ''</a>''
          else if theme = JStr (asc ''izakaya'') then
            asc ''<a href="'' @ esc (JStr (slug post))
              @ asc ''.html" class="izakaya-nav-card">\<newline>''
              @ asc ''  <div class="izakaya-nav-label">'' @ esc (JStr label)
              @ asc ''</div>\<newline>''
              @ asc ''  <div class="izakaya-nav-title">'' @ esc (title post)
              @ asc ''</div>\<newline>''
              @ asc ''  <div class="izakaya-nav-date">'' @ esc (JStr (date post))
              @ asc ''</div>\<newline>''
              @ asc ''</a>''
          else if theme = JStr (asc ''onsen-cosmos'') then
            asc ''<a href="'' @ esc (JStr (slug post))
              @ asc ''.html" class="onsen-nav-card">\<newline>''
              @ asc ''  <div class="onsen-nav-label">'' @ esc (JStr label)
              @ asc ''</div>\<newline>''
              @ asc ''  <div class="onsen-nav-title">'' @ esc (title post)
              @ asc ''</div>\<newline>''
              @ asc ''  <div class="onsen-nav-date">'' @ esc (JStr (date post))
              @ asc ''</div>\<newline>''
              @ asc ''</a>''
          else if theme = JStr (asc ''comedy-zine'') then
            asc ''<a href="'' @ esc (JStr (slug post))
              @ asc ''.html" class="zine-nav-card">\<newline>''
              @ asc ''  <div class="zine-nav-label">'' @ esc (JStr label)
              @ asc ''</div>\<newline>''
              @ asc ''  <div class="zine-nav-title">'' @ esc (title post)
              @ asc ''</div>\<newline>''
              @ asc ''  <div class="zine-nav-date">'' @ esc (JStr (date post))
              @ asc ''</div>\<newline>''
              @ asc ''</a>''
          else if theme = JStr (asc ''academy-log'') then
            asc ''<a href="'' @ esc (JStr (slug post))
              @ asc ''.html" class="academy-nav-card">\<newline>''
              @ asc ''  <div class="academy-nav-label">'' @ esc (JStr label)
              @ asc ''</div>\<newline>''
              @ asc ''  <div class="academy-nav-title">'' @ esc (title post)
              @ asc ''</div>\<newline>''
              @ asc ''  <div class="academy-nav-date">'' @ esc (JStr (date post))
              @ asc ''</div>\<newline>''
              @ asc ''</a>''
          else if theme = JStr (asc ''terminal'') then
            asc ''<a href="'' @ esc (JStr (slug post))
              @ asc ''.html" class="term-nav-card">\<newline>''
              @ asc ''  <div class="term-nav-label">'' @ esc (JStr label)
              @ asc ''</div>\<newline>''
              @ asc ''  <div class="term-nav-title">'' @ esc (title post)
              @ asc ''</div>\<newline>''
              @ asc ''  <div class="term-nav-date">'' @ esc (JStr (date post))
              @ asc ''</div>\<newline>''
              @ asc ''</a>''
          else if theme = JStr (asc ''kawase-blog'') then
            asc ''<a href="'' @ esc (JStr (slug post))
              @ asc ''.html" class="kawase-nav-card">\<newline>''
              @ asc ''  <div class="kawase-nav-label">'' @ esc (JStr label)
              @ asc ''</div>\<newline>''
              @ asc ''  <div class="kawase-nav-title">'' @ esc (title post)
              @ asc ''</div>\<newline>''
              @ asc ''  <div class="kawase-nav-date">'' @ esc (JStr (date post))
              @ asc ''</div>\<newline>''
              @ asc ''</a>''
          else if theme = JStr (asc ''sake-modern'') then
            asc ''<a href="'' @ esc (JStr (slug post))
              @ asc ''.html" class="sake-nav-card">\<newline>''
              @ asc ''  <div class="sake-nav-label">'' @ esc (JStr label)
              @ asc ''</div>\<newline>''
              @ asc ''  <div class="sake-nav-title">'' @ esc (title post)
              @ asc ''</div>\<newline>''
              @ asc ''  <div class="sake-nav-date">'' @ esc (JStr (date post))
              @ asc ''</div>\<newline>''
              @ asc ''</a>''
          else
            asc ''<a href="'' @ esc (JStr (slug post))
              @ asc ''.html" class="word-blog-card" style="padding:12px">\<newline>''
              @ asc ''  <div style="font-size:0.8rem;color:#666;margin-bottom:6px">''
              @ esc (JStr label) @ asc ''</div>\<newline>''
              @ asc ''  <div class="word-bold word-text-blue" style="font-size:0.9rem">''
              @ esc (title post) @ asc ''</div>\<newline>''
              @ asc ''  <div style="font-size:0.8rem;color:#666;margin-top:4px">''
              @ esc (JStr (date post)) @ asc ''</div>\<newline>''
              @ asc ''</a>''))\<close>

text \<open>\<open>buildTagsHtml(tags, theme)\<close>; the array \<open>tags\<close> is \<open>tagList\<close> here.\<close>

definition buildTagsHtml :: "jsval list \<Rightarrow> jsval \<Rightarrow> ustr" where
  \<open>buildTagsHtml tagList theme =
     (if length tagList = 0 then []
      else if theme = JStr (asc ''retro-cosmic'') then
        concat (map (\<lambda>t. asc ''<span class="cosmic-tag">#'' @ esc t @ asc ''</span>'') tagList)
      else if theme = JStr (asc ''terminal'') then
        concat (map (\<lambda>t. asc ''<span class="term-tag">#'' @ esc t @ asc ''</span>'') tagList)
      else if theme = JStr (asc ''gym-log'') then
        concat (map (\<lambda>t. asc ''<span class="gym-tag">#'' @ esc t @ asc ''</span>'') tagList)
      else if theme = JStr (asc ''love-column'') then
        concat (map (\<lambda>t. asc ''<span class="love-tag">#'' @ esc t @ asc ''</span>'') tagList)
      else if theme = JStr (asc ''izakaya'') then
        concat (map (\<lambda>t. asc ''<span class="izakaya-tag">#'' @ esc t @ asc ''</span>'') tagList)
      else if theme = JStr (asc ''onsen-cosmos'') then
        concat (map (\<lambda>t. asc ''<span class="onsen-tag">#'' @ esc t @ asc ''</span>'') tagList)
      else if theme = JStr (asc ''comedy-zine'') then
        concat (map (\<lambda>t. asc ''<span class="zine-tag">#'' @ esc t @ asc ''</span>'') tagList)
      else if theme = JStr (asc ''academy-log'') then
        concat (map (\<lambda>t. asc ''<span class="academy-tag">#'' @ esc t @ asc ''</span>'') tagList)
      else if theme = JStr (asc ''kawase-blog'') then
        concat (map (\<lambda>t. asc ''<span class="kawase-tag">#'' @ esc t @ asc ''</span>'') tagList)
      else if theme = JStr (asc ''sake-modern'') then
        concat (map (\<lambda>t. asc ''<span class="sake-tag">#'' @ esc t @ asc ''</span>'') tagList)
      else
        concat (map (\<lambda>t. asc ''<span class="word-tag">#'' @ esc t @ asc ''</span>'') tagList))\<close>

text \<open>The named variants, and the default theme.\<close>

definition named_themes :: "jsval list" where
  "named_themes =
     map (\<lambda>n. JStr (asc n))
       [''retro-cosmic'', ''gym-log'', ''love-column'', ''izakaya'', ''onsen-cosmos'',
        ''comedy-zine'', ''academy-log'', ''terminal'', ''kawase-blog'', ''sake-modern'']"

definition default_theme :: jsval where
  "default_theme = JStr (asc ''word-retro'')"

section \<open>The client-side tag filter\<close>

text \<open>
  The part of the page that \<open>tag-filter.js\<close> reads and writes: the elements with a
  \<open>data-tag-btn\<close> attribute, each with its class list, and the elements with a
  \<open>data-post-tags\<close> attribute, each with its \<open>style.display\<close>.
\<close>

record button =
  data_tag_btn :: ustr
  classList :: "ustr list"

record card =
  data_post_tags :: ustr
  display :: ustr

record page =
  tagButtons :: "button list"
  postCards :: "card list"

definition classList_remove :: "ustr list \<Rightarrow> ustr list \<Rightarrow> ustr list" where
  "classList_remove tokens cl = filter (\<lambda>c. c \<notin> set tokens) cl"

definition classList_add :: "ustr \<Rightarrow> ustr list \<Rightarrow> ustr list" where
  "classList_add tok cl = (if tok \<in> set cl then cl else cl @ [tok])"

text \<open>
  The click handler of the button at index \<open>i\<close>:
  \<^verbatim>\<open>
  const selectedTag = btn.getAttribute('data-tag-btn');
  tagButtons.forEach(function (b) {
    b.classList.remove('word-tag-active', 'cosmic-tag-active', 'term-tag-active');
  });
  btn.classList.add(
    btn.classList.contains('cosmic-tag') ? 'cosmic-tag-active' :
    btn.classList.contains('term-tag')   ? 'term-tag-active'   :
    'word-tag-active');
  postCards.forEach(function (card) {
    const tags = (card.getAttribute('data-post-tags') || '').split(',');
    if (selectedTag === '__all__' || tags.includes(selectedTag)) {
      card.style.display = '';
    } else {
      card.style.display = 'none';
    }
  });
  \<close>
  An index past the buttons has no handler.
\<close>

definition click :: "nat \<Rightarrow> page \<Rightarrow> page" where
  "click i pg =
     (if \<not> i < length (tagButtons pg) then pg
      else
        let selectedTag = data_tag_btn (tagButtons pg ! i);
            cleared = map (\<lambda>b. b\<lparr>classList :=
                        classList_remove
                          [asc ''word-tag-active'', asc ''cosmic-tag-active'', asc ''term-tag-active'']
                          (classList b)\<rparr>) (tagButtons pg);
            btn = cleared ! i;
            active = (if asc ''cosmic-tag'' \<in> set (classList btn) then asc ''cosmic-tag-active''
                      else if asc ''term-tag'' \<in> set (classList btn) then asc ''term-tag-active''
                      else asc ''word-tag-active'');
            buttons = cleared[i := btn\<lparr>classList := classList_add active (classList btn)\<rparr>];
            cards = map (\<lambda>card.
                      let tags = split_str (asc '','') (data_post_tags card)
                      in if selectedTag = asc ''__all__'' \<or> selectedTag \<in> set tags
                         then card\<lparr>display := []\<rparr>
                         else card\<lparr>display := asc ''none''\<rparr>) (postCards pg)
        in \<lparr>tagButtons = buttons, postCards = cards\<rparr>)"

section \<open>Invariants and sample inputs\<close>

text \<open>
  The invariant of the loop of \<open>renderMarkdown\<close>: the output so far is empty or ends
  with a line feed, a piece that is appended is \<open>neutral\<close> when it ends with a line feed
  and holds no list tag, and the opening tags of each list kind exceed the closing ones by
  one exactly while the list of that kind is open.
\<close>

definition nl_ended :: "ustr \<Rightarrow> bool" where
  "nl_ended s \<longleftrightarrow> s = [] \<or> last s = 0x0A"

definition neutral :: "ustr \<Rightarrow> bool" where
  "neutral p \<longleftrightarrow> p \<noteq> [] \<and> last p = 0x0A
     \<and> occurrences (asc ''<ol>'') p = 0 \<and> occurrences (asc ''</ol>'') p = 0
     \<and> occurrences (asc ''<ul>'') p = 0 \<and> occurrences (asc ''</ul>'') p = 0"

definition bal :: "md_state \<Rightarrow> bool" where
  "bal st \<longleftrightarrow> nl_ended (html st)
     \<and> occurrences (asc ''<ol>'') (html st)
         = occurrences (asc ''</ol>'') (html st) + (if inOl st then 1 else 0)
     \<and> occurrences (asc ''<ul>'') (html st)
         = occurrences (asc ''</ul>'') (html st) + (if inUl st then 1 else 0)"

text \<open>
  Posts in descending order of their date strings.
\<close>

definition date_descending :: "post list \<Rightarrow> bool" where
  "date_descending ps = sorted_wrt (\<lambda>p q. date q < date p) ps"

text \<open>
  Sample inputs: a frontmatter parser that takes the date of an item from the text of its
  file, a parser that returns a draft without an author, three dated items, the post that the loader builds from one of them, and the tag
  filter of a page of the \<open>kawase-blog\<close> theme as \<open>buildTagFilterHtml\<close> writes it
  (the "all" button with the classes \<open>kawase-tag kawase-tag-active\<close>, a tag button with
  the class \<open>kawase-tag\<close>) with two post cards.
\<close>

definition sample_matter :: "jsval \<Rightarrow> jsval \<Rightarrow> ustr \<Rightarrow> parsed" where
  "sample_matter ttl draft raw =
     \<lparr>parsed_data = \<lparr>fm_title = ttl, fm_date = JStr raw, fm_author = JStr (asc ''mio''),
                     fm_draft = draft, fm_excerpt = JUndefined, fm_tags = JUndefined\<rparr>,
      parsed_content = []\<rparr>"

definition draft_without_author :: "ustr \<Rightarrow> parsed" where
  "draft_without_author raw =
     \<lparr>parsed_data = \<lparr>fm_title = JStr (asc ''t''), fm_date = JStr raw, fm_author = JUndefined,
                     fm_draft = JBool True, fm_excerpt = JUndefined, fm_tags = JUndefined\<rparr>,
      parsed_content = []\<rparr>"

definition three_entries :: "(ustr \<times> ustr) list" where
  "three_entries = [(asc ''a.md'', asc ''2024-01-01''), (asc ''b.md'', asc ''2024-03-01''),
                    (asc ''c.md'', asc ''2024-02-01'')]"

definition sample_post :: "ustr \<Rightarrow> ustr \<Rightarrow> post" where
  "sample_post s d =
     \<lparr>slug = s, title = JStr (asc ''t''), date = d, author = JStr (asc ''mio''),
      excerpt = JStr [], tags = [], content = []\<rparr>"

definition kawase_page :: page where
  "kawase_page =
     \<lparr>tagButtons =
        [\<lparr>data_tag_btn = asc ''__all__'', classList = [asc ''kawase-tag'', asc ''kawase-tag-active'']\<rparr>,
         \<lparr>data_tag_btn = asc ''sf'', classList = [asc ''kawase-tag'']\<rparr>],
      postCards =
        [\<lparr>data_post_tags = asc ''sf,diary'', display = []\<rparr>,
         \<lparr>data_post_tags = asc ''diary'', display = []\<rparr>]\<rparr>"

section \<open>Properties of the escaper\<close>

lemma replace_g_append: "replace_g c r (xs @ ys) = replace_g c r xs @ replace_g c r ys"
  by (induction xs) simp_all

lemma replace_g_concat_map:
  "replace_g c r (concat (map f s)) = concat (map (\<lambda>x. replace_g c r (f x)) s)"
  by (induction s) (simp_all add: replace_g_append)

lemma replace_g_single: "replace_g c r s = concat (map (\<lambda>x. replace_g c r [x]) s)"
  by (induction s) simp_all

lemma entity_chain:
  "replace_g 0x22 (asc ''&quot;'')
     (replace_g 0x3E (asc ''&gt;'')
       (replace_g 0x3C (asc ''&lt;'')
         (replace_g 0x26 (asc ''&amp;'') [x]))) = entity x"
  by (simp add: entity_def asc_def)

lemma esc_chain_entity:
  "replace_g 0x22 (asc ''&quot;'')
     (replace_g 0x3E (asc ''&gt;'')
       (replace_g 0x3C (asc ''&lt;'')
         (replace_g 0x26 (asc ''&amp;'') s))) = escape_once s"
proof -
  have "replace_g 0x26 (asc ''&amp;'') s
      = concat (map (\<lambda>x. replace_g 0x26 (asc ''&amp;'') [x]) s)"
    by (rule replace_g_single)
  then show ?thesis
    by (simp only: replace_g_concat_map entity_chain escape_once_def)
qed

lemma entity_nonempty: "entity c \<noteq> []"
  by (simp add: entity_def asc_def)

lemma entity_no_raw: "d \<in> set (entity c) \<Longrightarrow> d \<noteq> 0x3C \<and> d \<noteq> 0x3E \<and> d \<noteq> 0x22"
  by (auto simp: entity_def asc_def split: if_splits)

lemma escape_once_empty: "escape_once s = [] \<longleftrightarrow> s = []"
  by (cases s) (simp_all add: escape_once_def entity_nonempty)

lemma escape_once_Nil: "escape_once [] = []"
  by (simp add: escape_once_def)

lemma esc_JStr: "esc (JStr s) = escape_once s"
proof (cases "s = []")
  case True
  then show ?thesis by (simp add: esc_def escape_once_Nil)
next
  case False
  then show ?thesis by (simp add: esc_def esc_chain_entity)
qed

lemma escape_once_no_raw:
  "c \<in> set (escape_once s) \<Longrightarrow> c \<noteq> 0x3C \<and> c \<noteq> 0x3E \<and> c \<noteq> 0x22"
  using entity_no_raw by (auto simp: escape_once_def)

text \<open>
  C1, as amended. The guard of \<open>esc\<close> sends every falsy value other than the number
  \<open>0\<close> to the empty string: \<open>null\<close> and \<open>undefined\<close>, and also \<open>false\<close>, \<open>NaN\<close> and
  the empty string. Every other value \<open>v\<close>, the number \<open>0\<close> included, gives \<open>String(v)\<close>
  with each of \<open>&\<close>, \<open><\<close>, \<open>>\<close>, \<open>"\<close> replaced by its entity: the four replacements in
  sequence, ampersand first, equal the replacement of all four at once, so no entity is
  escaped twice, and no raw \<open><\<close>, \<open>>\<close> or \<open>"\<close> is left. The result is empty exactly when
  the guard fires or \<open>String(v)\<close> is empty.
\<close>

theorem esc_contract:
  "(\<not> truthy v \<and> v \<noteq> JNum 0 \<longrightarrow> esc v = [])
   \<and> (truthy v \<or> v = JNum 0 \<longrightarrow> esc v = escape_once (to_string v))
   \<and> (\<forall>c \<in> set (esc v). c \<noteq> 0x3C \<and> c \<noteq> 0x3E \<and> c \<noteq> 0x22)
   \<and> esc (JNum 0) = asc ''0''
   \<and> (esc v = [] \<longleftrightarrow> (\<not> truthy v \<and> v \<noteq> JNum 0) \<or> to_string v = [])"
proof -
  have a: "\<not> truthy v \<and> v \<noteq> JNum 0 \<longrightarrow> esc v = []"
    by (simp add: esc_def)
  have b: "truthy v \<or> v = JNum 0 \<longrightarrow> esc v = escape_once (to_string v)"
    by (auto simp: esc_def esc_chain_entity)
  have c: "\<forall>c \<in> set (esc v). c \<noteq> 0x3C \<and> c \<noteq> 0x3E \<and> c \<noteq> 0x22"
  proof (cases "\<not> truthy v \<and> v \<noteq> JNum 0")
    case True
    then show ?thesis by (simp add: esc_def)
  next
    case False
    then have "esc v = escape_once (to_string v)" using b by blast
    then show ?thesis using escape_once_no_raw by metis
  qed
  have d: "esc (JNum 0) = asc ''0''"
    by (simp add: esc_def digits.simps [of 0] asc_def)
  have e: "esc v = [] \<longleftrightarrow> (\<not> truthy v \<and> v \<noteq> JNum 0) \<or> to_string v = []"
  proof (cases "\<not> truthy v \<and> v \<noteq> JNum 0")
    case True
    then show ?thesis by (simp add: esc_def)
  next
    case False
    then have "esc v = escape_once (to_string v)" using b by blast
    then show ?thesis using False by (auto simp: escape_once_empty)
  qed
  from a b c d e show ?thesis by blast
qed

theorem esc_contract_witness:
  "esc JNull = [] \<and> esc JUndefined = [] \<and> esc (JBool False) = [] \<and> esc JNaN = []
   \<and> esc (JStr []) = [] \<and> esc (JNum 0) = asc ''0''
   \<and> esc (JStr (asc ''a<b'')) = escape_once (asc ''a<b'')
   \<and> esc (JStr (asc ''a<b'')) \<noteq> []"
  using esc_contract [of JNull] esc_contract [of JUndefined] esc_contract [of "JBool False"]
    esc_contract [of JNaN] esc_contract [of "JStr []"] esc_contract [of "JStr (asc ''a<b'')"]
  by (simp add: asc_def escape_once_def entity_def)

text \<open>
  C1 as stated fails: \<open>false\<close> is neither \<open>null\<close> nor \<open>undefined\<close>, its string form is
  \<open>"false"\<close>, and \<open>esc(false)\<close> is the empty string.
\<close>

theorem esc_only_nullish_counterexample:
  "esc (JBool False) = [] \<and> JBool False \<noteq> JNull \<and> JBool False \<noteq> JUndefined
   \<and> to_string (JBool False) = asc ''false''"
  by (simp add: esc_def)

lemma length_escape_once: "length s \<le> length (escape_once s)"
proof (induction s)
  case Nil
  show ?case by (simp add: escape_once_def)
next
  case (Cons c cs)
  have "1 \<le> length (entity c)"
    using entity_nonempty [of c] by (cases "entity c") simp_all
  with Cons show ?case by (simp add: escape_once_def)
qed

lemma length_escape_once_amp: "0x26 \<in> set s \<Longrightarrow> length s < length (escape_once s)"
proof (induction s)
  case Nil
  then show ?case by simp
next
  case (Cons c cs)
  show ?case
  proof (cases "c = 0x26")
    case True
    have "length (entity 0x26) = 5" by (simp add: entity_def asc_def)
    with True length_escape_once [of cs] show ?thesis by (simp add: escape_once_def)
  next
    case False
    with Cons.prems have "0x26 \<in> set cs" by simp
    then have "length cs < length (escape_once cs)" by (rule Cons.IH)
    moreover have "1 \<le> length (entity c)"
      using entity_nonempty [of c] by (cases "entity c") simp_all
    ultimately show ?thesis by (simp add: escape_once_def)
  qed
qed

lemma entity_has_amp: "c \<in> sensitive \<Longrightarrow> 0x26 \<in> set (entity c)"
  by (auto simp: sensitive_def entity_def asc_def)

lemma escape_once_has_amp: "\<exists>c \<in> set s. c \<in> sensitive \<Longrightarrow> 0x26 \<in> set (escape_once s)"
  using entity_has_amp by (auto simp: escape_once_def)

text \<open>
  C9. Escaping is not idempotent. Whenever a string contains one of \<open>&\<close>, \<open><\<close>,
  \<open>>\<close>, \<open>"\<close>, escaping its escaped form again gives a different (longer) string: the
  first pass has produced an entity, and the second pass encodes the ampersand of that
  entity. Such strings exist, so \<open>esc(esc(s))\<close> differs from \<open>esc(s)\<close> for some \<open>s\<close>.
\<close>

theorem esc_not_idempotent:
  "\<exists>c \<in> set s. c \<in> sensitive \<Longrightarrow> esc (JStr (esc (JStr s))) \<noteq> esc (JStr s)"
proof -
  assume "\<exists>c \<in> set s. c \<in> sensitive"
  then have "0x26 \<in> set (escape_once s)" by (rule escape_once_has_amp)
  then have "length (escape_once s) < length (escape_once (escape_once s))"
    by (rule length_escape_once_amp)
  then show ?thesis by (auto simp: esc_JStr)
qed

theorem esc_not_idempotent_witness:
  "esc (JStr (asc ''<'')) = asc ''&lt;''
   \<and> esc (JStr (esc (JStr (asc ''<'')))) = asc ''&amp;lt;''
   \<and> esc (JStr (esc (JStr (asc ''<'')))) \<noteq> esc (JStr (asc ''<''))"
  using esc_not_idempotent [of "asc ''<''"]
  by (simp add: sensitive_def asc_def esc_JStr escape_once_def entity_def)

section \<open>Properties of the block markup renderer\<close>

lemma occurrences_skip:
  "\<forall>c \<in> set e. c \<noteq> t \<Longrightarrow> occurrences (t # ts) (e @ b) = occurrences (t # ts) b"
  by (induction e) auto

lemma esc_no_lt: "0x3C \<notin> set (esc v)"
proof (cases "\<not> truthy v \<and> v \<noteq> JNum 0")
  case True
  then show ?thesis by (simp add: esc_def)
next
  case False
  then have "esc v = escape_once (to_string v)" by (auto simp: esc_def esc_chain_entity)
  then show ?thesis using escape_once_no_raw by metis
qed

lemma occurrences_esc: "occurrences (0x3C # ts) (esc v @ b) = occurrences (0x3C # ts) b"
  using esc_no_lt [of v] by (intro occurrences_skip) auto

lemma prefix_within:
  assumes "a \<noteq> []" and "last a \<notin> set tag"
  shows "prefix tag (a @ b) \<longleftrightarrow> prefix tag a"
proof
  assume "prefix tag (a @ b)"
  then consider "prefix tag a" | us where "tag = a @ us"
    by (auto simp: prefix_append)
  then show "prefix tag a"
  proof cases
    case 1
    then show ?thesis .
  next
    case 2
    with assms have False by auto
    then show ?thesis ..
  qed
next
  assume "prefix tag a"
  then show "prefix tag (a @ b)" by (simp add: prefix_prefix)
qed

lemma occurrences_append:
  "a = [] \<or> last a = 0x0A \<Longrightarrow> 0x0A \<notin> set tag
   \<Longrightarrow> occurrences tag (a @ b) = occurrences tag a + occurrences tag b"
proof (induction a)
  case Nil
  show ?case by simp
next
  case (Cons c cs)
  then have l: "last (c # cs) = 0x0A" by simp
  have p: "prefix tag ((c # cs) @ b) \<longleftrightarrow> prefix tag (c # cs)"
    using l Cons.prems(2) by (intro prefix_within) auto
  have "cs = [] \<or> last cs = 0x0A" using l by (cases cs) simp_all
  then have "occurrences tag (cs @ b) = occurrences tag cs + occurrences tag b"
    using Cons.prems(2) by (rule Cons.IH)
  with p show ?case by simp
qed

lemma tags_no_nl:
  "0x0A \<notin> set (asc ''<ol>'')" "0x0A \<notin> set (asc ''</ol>'')"
  "0x0A \<notin> set (asc ''<ul>'')" "0x0A \<notin> set (asc ''</ul>'')"
  by (simp_all add: asc_def)

lemma occ_after:
  assumes "nl_ended h"
  shows "occurrences (asc ''<ol>'') (h @ p) = occurrences (asc ''<ol>'') h + occurrences (asc ''<ol>'') p"
    and "occurrences (asc ''</ol>'') (h @ p) = occurrences (asc ''</ol>'') h + occurrences (asc ''</ol>'') p"
    and "occurrences (asc ''<ul>'') (h @ p) = occurrences (asc ''<ul>'') h + occurrences (asc ''<ul>'') p"
    and "occurrences (asc ''</ul>'') (h @ p) = occurrences (asc ''</ul>'') h + occurrences (asc ''</ul>'') p"
  using assms by (simp_all add: nl_ended_def occurrences_append tags_no_nl)

lemma nl_ended_append: "p \<noteq> [] \<Longrightarrow> last p = 0x0A \<Longrightarrow> nl_ended (h @ p)"
  by (simp add: nl_ended_def)

lemma neutral_wrap:
  "neutral (asc ''<h3>'' @ esc v @ asc ''</h3>\<newline>'')"
  "neutral (asc ''<h2>'' @ esc v @ asc ''</h2>\<newline>'')"
  "neutral (asc ''<h1>'' @ esc v @ asc ''</h1>\<newline>'')"
  "neutral (asc ''  <li>'' @ esc v @ asc ''</li>\<newline>'')"
  "neutral (asc ''<p>'' @ esc v @ asc ''</p>\<newline>'')"
  "neutral (asc ''\<newline>'')"
  by (simp_all add: neutral_def asc_def occurrences_esc)

lemma tag_counts:
  "occurrences (asc ''<ol>'') (asc ''<ol>\<newline>'') = 1"
  "occurrences (asc ''</ol>'') (asc ''<ol>\<newline>'') = 0"
  "occurrences (asc ''<ul>'') (asc ''<ol>\<newline>'') = 0"
  "occurrences (asc ''</ul>'') (asc ''<ol>\<newline>'') = 0"
  "occurrences (asc ''<ol>'') (asc ''</ol>\<newline>'') = 0"
  "occurrences (asc ''</ol>'') (asc ''</ol>\<newline>'') = 1"
  "occurrences (asc ''<ul>'') (asc ''</ol>\<newline>'') = 0"
  "occurrences (asc ''</ul>'') (asc ''</ol>\<newline>'') = 0"
  "occurrences (asc ''<ol>'') (asc ''<ul>\<newline>'') = 0"
  "occurrences (asc ''</ol>'') (asc ''<ul>\<newline>'') = 0"
  "occurrences (asc ''<ul>'') (asc ''<ul>\<newline>'') = 1"
  "occurrences (asc ''</ul>'') (asc ''<ul>\<newline>'') = 0"
  "occurrences (asc ''<ol>'') (asc ''</ul>\<newline>'') = 0"
  "occurrences (asc ''</ol>'') (asc ''</ul>\<newline>'') = 0"
  "occurrences (asc ''<ul>'') (asc ''</ul>\<newline>'') = 0"
  "occurrences (asc ''</ul>'') (asc ''</ul>\<newline>'') = 1"
  by (simp_all add: asc_def)

lemma tag_nl:
  "asc ''<ol>\<newline>'' \<noteq> []" "last (asc ''<ol>\<newline>'') = 0x0A"
  "asc ''</ol>\<newline>'' \<noteq> []" "last (asc ''</ol>\<newline>'') = 0x0A"
  "asc ''<ul>\<newline>'' \<noteq> []" "last (asc ''<ul>\<newline>'') = 0x0A"
  "asc ''</ul>\<newline>'' \<noteq> []" "last (asc ''</ul>\<newline>'') = 0x0A"
  by (simp_all add: asc_def)

lemma bal_emit: "bal st \<Longrightarrow> neutral p \<Longrightarrow> bal (emit p st)"
  by (simp add: bal_def neutral_def emit_def occ_after nl_ended_append)

lemma bal_close_ol:
  "bal st \<Longrightarrow> bal (if inOl st then st\<lparr>html := html st @ asc ''</ol>\<newline>'', inOl := False\<rparr> else st)"
  by (simp add: bal_def occ_after nl_ended_append tag_counts tag_nl)

lemma bal_close_ul:
  "bal st \<Longrightarrow> bal (if inUl st then st\<lparr>html := html st @ asc ''</ul>\<newline>'', inUl := False\<rparr> else st)"
  by (simp add: bal_def occ_after nl_ended_append tag_counts tag_nl)

lemma bal_open_ol:
  "bal st \<Longrightarrow> bal (if \<not> inOl st then st\<lparr>html := html st @ asc ''<ol>\<newline>'', inOl := True\<rparr> else st)"
  by (simp add: bal_def occ_after nl_ended_append tag_counts tag_nl)

lemma bal_open_ul:
  "bal st \<Longrightarrow> bal (if \<not> inUl st then st\<lparr>html := html st @ asc ''<ul>\<newline>'', inUl := True\<rparr> else st)"
  by (simp add: bal_def occ_after nl_ended_append tag_counts tag_nl)

lemma bal_if: "(c \<Longrightarrow> bal a) \<Longrightarrow> (\<not> c \<Longrightarrow> bal b) \<Longrightarrow> bal (if c then a else b)"
  by simp

lemma bal_close: "bal st \<Longrightarrow> bal (close st)"
  unfolding close_def Let_def by (intro bal_close_ul bal_close_ol)

lemma close_flags: "\<not> inOl (close st) \<and> \<not> inUl (close st)"
  by (simp add: close_def Let_def)

lemma bal_md_line:
  assumes "bal st"
  shows "bal (md_line st line)"
proof -
  have c: "bal (close st)" using assms by (rule bal_close)
  have ol: "bal (if \<not> inOl (if inUl st then st\<lparr>html := html st @ asc ''</ul>\<newline>'', inUl := False\<rparr> else st)
                 then (if inUl st then st\<lparr>html := html st @ asc ''</ul>\<newline>'', inUl := False\<rparr> else st)
                        \<lparr>html := html (if inUl st then st\<lparr>html := html st @ asc ''</ul>\<newline>'', inUl := False\<rparr> else st)
                                  @ asc ''<ol>\<newline>'', inOl := True\<rparr>
                 else (if inUl st then st\<lparr>html := html st @ asc ''</ul>\<newline>'', inUl := False\<rparr> else st))"
    using assms by (intro bal_open_ol bal_close_ul)
  have ul: "bal (if \<not> inUl (if inOl st then st\<lparr>html := html st @ asc ''</ol>\<newline>'', inOl := False\<rparr> else st)
                 then (if inOl st then st\<lparr>html := html st @ asc ''</ol>\<newline>'', inOl := False\<rparr> else st)
                        \<lparr>html := html (if inOl st then st\<lparr>html := html st @ asc ''</ol>\<newline>'', inOl := False\<rparr> else st)
                                  @ asc ''<ul>\<newline>'', inUl := True\<rparr>
                 else (if inOl st then st\<lparr>html := html st @ asc ''</ol>\<newline>'', inOl := False\<rparr> else st))"
    using assms by (intro bal_open_ul bal_close_ol)
  show ?thesis
    unfolding md_line_def Let_def
    by (intro bal_if bal_emit neutral_wrap c ol ul)
qed

lemma bal_foldl: "bal st \<Longrightarrow> bal (foldl md_line st ls)"
  by (induction ls arbitrary: st) (simp_all add: bal_md_line)

lemma bal_init: "bal \<lparr>html = [], inOl = False, inUl = False\<rparr>"
  by (simp add: bal_def nl_ended_def)

text \<open>
  C2. For every body string, the HTML that \<open>renderMarkdown\<close> returns has as many
  closing tags \<open></ol>\<close> as opening tags \<open><ol>\<close>, as many \<open></ul>\<close> as \<open><ul>\<close>,
  and so as many closing list tags as opening list tags in total. This covers a body that
  ends while a list is open (the final \<open>close()\<close>) and text that spells a list tag
  (escaped, it holds no \<open><\<close>).
\<close>

theorem renderMarkdown_list_balance:
  "occurrences (asc ''<ol>'') (renderMarkdown body) = occurrences (asc ''</ol>'') (renderMarkdown body)
   \<and> occurrences (asc ''<ul>'') (renderMarkdown body) = occurrences (asc ''</ul>'') (renderMarkdown body)
   \<and> occurrences (asc ''<ol>'') (renderMarkdown body) + occurrences (asc ''<ul>'') (renderMarkdown body)
     = occurrences (asc ''</ol>'') (renderMarkdown body) + occurrences (asc ''</ul>'') (renderMarkdown body)"
proof (cases "body = []")
  case True
  then show ?thesis by (simp add: renderMarkdown_def)
next
  case False
  define st where "st = close (foldl md_line \<lparr>html = [], inOl = False, inUl = False\<rparr>
                          (split_str (asc ''\<newline>'') body))"
  have "bal st" unfolding st_def by (intro bal_close bal_foldl bal_init)
  moreover have "\<not> inOl st \<and> \<not> inUl st" unfolding st_def by (rule close_flags)
  moreover have "renderMarkdown body = html st" using False by (simp add: renderMarkdown_def st_def)
  ultimately show ?thesis by (simp add: bal_def)
qed

theorem renderMarkdown_list_balance_witness:
  "renderMarkdown (asc ''- a'') = asc ''<ul>\<newline>  <li>a</li>\<newline></ul>\<newline>''
   \<and> occurrences (asc ''<ul>'') (renderMarkdown (asc ''- a'')) = 1
   \<and> occurrences (asc ''</ul>'') (renderMarkdown (asc ''- a'')) = 1"
proof -
  have r: "renderMarkdown (asc ''- a'') = asc ''<ul>\<newline>  <li>a</li>\<newline></ul>\<newline>''"
    by (simp add: renderMarkdown_def split_str_def md_line_def close_def emit_def ol_match_def
          is_digit_def trim_def is_space_def esc_JStr escape_once_def entity_def asc_def Let_def)
  have o: "occurrences (asc ''<ul>'') (asc ''<ul>\<newline>  <li>a</li>\<newline></ul>\<newline>'') = 1"
    by (simp add: asc_def)
  show ?thesis
    using renderMarkdown_list_balance [of "asc ''- a''"] r o by simp
qed

section \<open>Properties of the template substitution engine\<close>














text \<open>
  C5. \<open>render\<close> replaces every \<open>{{NAME}}\<close> by the string form of the value, except
  that \<open>replaceAll\<close> reads the value as a replacement pattern: with the mapping
  \<open>{A: "$$"}\<close> the template \<open>{{A}}\<close> gives \<open>$\<close>, not \<open>$$\<close>, and \<open>$&\<close> in a
  value brings the token back.
\<close>

theorem render_dollar_patterns:
  "render (asc ''{{A}}'') [(asc ''A'', JStr (asc ''$$''))] = asc ''$''
   \<and> render (asc ''<p>{{A}}</p>'') [(asc ''A'', JStr (asc ''Q$&A''))] = asc ''<p>Q{{A}}A</p>''"
  by (simp add: render_def replaceAll_def token_def value_text_def asc_def)

lemma render_examples:
  "render (asc ''Hello {{NAME}}, {{NAME}} again'') [(asc ''NAME'', JStr (asc ''X''))] = asc ''Hello X, X again''"
  "render (asc ''Hello {{NAME}}, {{NAME}} again'') [] = asc ''Hello {{NAME}}, {{NAME}} again''"
  by (simp_all add: render_def replaceAll_def token_def value_text_def asc_def)

section \<open>Properties of the post loader\<close>

lemma load_loop_append:
  "load_loop b m (xs @ ys) acc
   = (case load_loop b m xs acc of Inl e \<Rightarrow> Inl e | Inr acc' \<Rightarrow> load_loop b m ys acc')"
proof (induction xs arbitrary: acc)
  case Nil
  show ?case by simp
next
  case (Cons x xs)
  obtain fname raw where x: "x = (fname, raw)" by (cases x)
  show ?case unfolding x by (simp add: Let_def Cons.IH)
qed

lemma load_loop_valid_draft:
  assumes "truthy (fm_title (parsed_data (m raw)))"
    and "truthy (fm_date (parsed_data (m raw)))"
    and "truthy (fm_author (parsed_data (m raw)))"
    and "truthy (fm_draft (parsed_data (m raw)))"
  shows "load_loop b m ((fname, raw) # rest) acc = load_loop b m rest acc"
  using assms by (simp add: Let_def)

lemma load_loop_missing:
  assumes "endsWith fname (asc ''.md'')"
    and "\<not> (truthy (fm_title (parsed_data (m raw))) \<and> truthy (fm_date (parsed_data (m raw)))
            \<and> truthy (fm_author (parsed_data (m raw))))"
  shows "load_loop b m ((fname, raw) # rest) acc
         = Inl (MissingFrontmatter b fname
             ((if \<not> truthy (fm_title (parsed_data (m raw))) then [asc ''title''] else [])
              @ (if \<not> truthy (fm_date (parsed_data (m raw))) then [asc ''date''] else [])
              @ (if \<not> truthy (fm_author (parsed_data (m raw))) then [asc ''author''] else [])))"
  using assms by (auto simp: Let_def)

text \<open>
  C3, as amended. The required fields are checked before the \<open>draft\<close> flag is read.
  A content item with a truthy \<open>draft\<close> flag whose \<open>title\<close>, \<open>date\<close> and \<open>author\<close>
  are present and truthy is left out without an error: the loader returns what it returns
  for the directory without that item. A draft in a file named \<open>*.md\<close> that lacks one of
  the three fields stops the build, as any other item does, with the error that names the
  blog, the file and the missing fields (when the items before it have loaded).
\<close>

theorem loadPosts_draft:
  assumes "truthy (fm_draft (parsed_data (matter raw)))"
  shows "(truthy (fm_title (parsed_data (matter raw))) \<and> truthy (fm_date (parsed_data (matter raw)))
          \<and> truthy (fm_author (parsed_data (matter raw)))
          \<longrightarrow> loadPosts blogSlug matter (Some (earlier @ (fname, raw) # later))
              = loadPosts blogSlug matter (Some (earlier @ later)))
       \<and> (endsWith fname (asc ''.md'')
          \<and> \<not> (truthy (fm_title (parsed_data (matter raw))) \<and> truthy (fm_date (parsed_data (matter raw)))
                \<and> truthy (fm_author (parsed_data (matter raw))))
          \<and> load_loop blogSlug matter earlier [] = Inr loaded
          \<longrightarrow> loadPosts blogSlug matter (Some (earlier @ (fname, raw) # later))
              = Inl (MissingFrontmatter blogSlug fname
                  ((if \<not> truthy (fm_title (parsed_data (matter raw))) then [asc ''title''] else [])
                   @ (if \<not> truthy (fm_date (parsed_data (matter raw))) then [asc ''date''] else [])
                   @ (if \<not> truthy (fm_author (parsed_data (matter raw))) then [asc ''author''] else []))))"
proof (intro conjI impI)
  assume v: "truthy (fm_title (parsed_data (matter raw))) \<and> truthy (fm_date (parsed_data (matter raw)))
          \<and> truthy (fm_author (parsed_data (matter raw)))"
  have skip: "\<And>acc. load_loop blogSlug matter ((fname, raw) # later) acc
                   = load_loop blogSlug matter later acc"
    using assms v by (intro load_loop_valid_draft) simp_all
  have "load_loop blogSlug matter (earlier @ (fname, raw) # later) []
        = load_loop blogSlug matter (earlier @ later) []"
    by (cases "load_loop blogSlug matter earlier []") (simp_all only: load_loop_append sum.case skip)
  then show "loadPosts blogSlug matter (Some (earlier @ (fname, raw) # later))
              = loadPosts blogSlug matter (Some (earlier @ later))"
    by (simp add: loadPosts_def)
next
  assume h: "endsWith fname (asc ''.md'')
          \<and> \<not> (truthy (fm_title (parsed_data (matter raw))) \<and> truthy (fm_date (parsed_data (matter raw)))
                \<and> truthy (fm_author (parsed_data (matter raw))))
          \<and> load_loop blogSlug matter earlier [] = Inr loaded"
  have "load_loop blogSlug matter ((fname, raw) # later) loaded
        = Inl (MissingFrontmatter blogSlug fname
                  ((if \<not> truthy (fm_title (parsed_data (matter raw))) then [asc ''title''] else [])
                   @ (if \<not> truthy (fm_date (parsed_data (matter raw))) then [asc ''date''] else [])
                   @ (if \<not> truthy (fm_author (parsed_data (matter raw))) then [asc ''author''] else [])))"
    using h by (intro load_loop_missing) simp_all
  then show "loadPosts blogSlug matter (Some (earlier @ (fname, raw) # later))
              = Inl (MissingFrontmatter blogSlug fname
                  ((if \<not> truthy (fm_title (parsed_data (matter raw))) then [asc ''title''] else [])
                   @ (if \<not> truthy (fm_date (parsed_data (matter raw))) then [asc ''date''] else [])
                   @ (if \<not> truthy (fm_author (parsed_data (matter raw))) then [asc ''author''] else [])))"
    using h by (simp only: loadPosts_def load_loop_append option.case sum.case)
qed

theorem loadPosts_draft_witness:
  "loadPosts (asc ''b'') (sample_matter (JStr (asc ''t'')) (JBool True))
       (Some ([] @ (asc ''d.md'', asc ''2024-01-01'') # []))
   = loadPosts (asc ''b'') (sample_matter (JStr (asc ''t'')) (JBool True)) (Some ([] @ []))
   \<and> loadPosts (asc ''b'') (sample_matter (JStr (asc ''t'')) (JBool True)) (Some []) = Inr []
   \<and> loadPosts (asc ''b'') draft_without_author (Some ([] @ (asc ''d.md'', asc ''2024-01-01'') # []))
     = Inl (MissingFrontmatter (asc ''b'') (asc ''d.md'') [asc ''author''])"
proof -
  have d1: "truthy (fm_draft (parsed_data (sample_matter (JStr (asc ''t'')) (JBool True) (asc ''2024-01-01''))))"
    by (simp add: sample_matter_def)
  have v1: "truthy (fm_title (parsed_data (sample_matter (JStr (asc ''t'')) (JBool True) (asc ''2024-01-01''))))
     \<and> truthy (fm_date (parsed_data (sample_matter (JStr (asc ''t'')) (JBool True) (asc ''2024-01-01''))))
     \<and> truthy (fm_author (parsed_data (sample_matter (JStr (asc ''t'')) (JBool True) (asc ''2024-01-01''))))"
    by (simp add: sample_matter_def asc_def)
  have a: "loadPosts (asc ''b'') (sample_matter (JStr (asc ''t'')) (JBool True))
       (Some ([] @ (asc ''d.md'', asc ''2024-01-01'') # []))
   = loadPosts (asc ''b'') (sample_matter (JStr (asc ''t'')) (JBool True)) (Some ([] @ []))"
    using loadPosts_draft
            [where matter = "sample_matter (JStr (asc ''t'')) (JBool True)"
               and raw = "asc ''2024-01-01''" and blogSlug = "asc ''b''" and earlier = "[]"
               and fname = "asc ''d.md''" and later = "[]", OF d1] v1
    by blast
  have d2: "truthy (fm_draft (parsed_data (draft_without_author (asc ''2024-01-01''))))"
    by (simp add: draft_without_author_def)
  have e: "endsWith (asc ''d.md'') (asc ''.md'')"
    by (simp add: endsWith_def suffix_to_prefix asc_def)
  have f: "truthy (fm_title (parsed_data (draft_without_author (asc ''2024-01-01''))))"
    "truthy (fm_date (parsed_data (draft_without_author (asc ''2024-01-01''))))"
    "\<not> truthy (fm_author (parsed_data (draft_without_author (asc ''2024-01-01''))))"
    by (simp_all add: draft_without_author_def asc_def)
  have l: "load_loop (asc ''b'') draft_without_author [] [] = Inr []" by simp
  have b: "loadPosts (asc ''b'') draft_without_author (Some ([] @ (asc ''d.md'', asc ''2024-01-01'') # []))
     = Inl (MissingFrontmatter (asc ''b'') (asc ''d.md'') [asc ''author''])"
    using loadPosts_draft
            [where matter = draft_without_author
               and raw = "asc ''2024-01-01''" and blogSlug = "asc ''b''" and earlier = "[]"
               and fname = "asc ''d.md''" and later = "[]" and loaded = "[]", OF d2] e f l
    by simp
  have c: "loadPosts (asc ''b'') (sample_matter (JStr (asc ''t'')) (JBool True)) (Some []) = Inr []"
    by (simp add: loadPosts_def sort_cmp_def)
  from a b c show ?thesis by (intro conjI)
qed

text \<open>
  C3 as stated fails: a draft without a \<open>title\<close> stops the build with the error that
  names \<open>title\<close>.
\<close>

theorem loadPosts_invalid_draft_counterexample:
  "truthy (fm_draft (parsed_data (sample_matter JUndefined (JBool True) (asc ''2024-01-01''))))
   \<and> loadPosts (asc ''b'') (sample_matter JUndefined (JBool True))
         (Some [(asc ''d.md'', asc ''2024-01-01'')])
     = Inl (MissingFrontmatter (asc ''b'') (asc ''d.md'') [asc ''title''])"
  by (simp add: loadPosts_def sample_matter_def endsWith_def suffix_to_prefix asc_def Let_def)

text \<open>
  C10. When the posts directory of the blog does not exist, \<open>loadPosts\<close> returns the
  empty list and no error.
\<close>

theorem loadPosts_missing_directory: "loadPosts blogSlug matter None = Inr []"
  by (simp add: loadPosts_def)

theorem loadPosts_missing_directory_witness:
  "loadPosts (asc ''ghost'') (sample_matter JUndefined JUndefined) None = Inr []"
  using loadPosts_missing_directory [of "asc ''ghost''" "sample_matter JUndefined JUndefined"]
  by simp

lemma set_insort_cmp: "set (insort_cmp cmp x ys) = insert x (set ys)"
  by (induction ys) auto

lemma mset_insort_cmp: "mset (insort_cmp cmp x ys) = add_mset x (mset ys)"
  by (induction ys) auto

lemma date_desc_pos: "0 < date_desc y x \<longleftrightarrow> date y < date x"
  by (simp add: date_desc_def)

lemma insort_date_desc:
  "date_descending ys \<Longrightarrow> date x \<notin> date ` set ys
   \<Longrightarrow> date_descending (insort_cmp date_desc x ys)"
proof (induction ys)
  case Nil
  show ?case by (simp add: date_descending_def)
next
  case (Cons y ys)
  have tail: "date_descending ys" and below: "\<forall>q \<in> set ys. date q < date y"
    using Cons.prems(1) by (simp_all add: date_descending_def)
  have ne: "date x \<noteq> date y" and fresh: "date x \<notin> date ` set ys"
    using Cons.prems(2) by auto
  show ?case
  proof (cases "date y < date x")
    case True
    then have "\<forall>q \<in> set (y # ys). date q < date x"
      using below by (auto intro: less_trans)
    then show ?thesis
      using True Cons.prems(1) by (simp add: date_desc_pos date_descending_def)
  next
    case False
    with ne have lt: "date x < date y" by auto
    have "date_descending (insort_cmp date_desc x ys)"
      using tail fresh by (rule Cons.IH)
    then show ?thesis
      using False lt below by (simp add: date_desc_pos date_descending_def set_insort_cmp)
  qed
qed

lemma foldl_insort_date_desc:
  "date_descending acc \<Longrightarrow> distinct (map date (acc @ xs))
   \<Longrightarrow> date_descending (foldl (\<lambda>acc x. insort_cmp date_desc x acc) acc xs)
       \<and> mset (foldl (\<lambda>acc x. insort_cmp date_desc x acc) acc xs) = mset acc + mset xs"
proof (induction xs arbitrary: acc)
  case Nil
  then show ?case by simp
next
  case (Cons x xs)
  have "date x \<notin> date ` set acc" using Cons.prems(2) by auto
  then have d: "date_descending (insort_cmp date_desc x acc)"
    using Cons.prems(1) by (intro insort_date_desc)
  have "mset (map date (insort_cmp date_desc x acc @ xs)) = mset (map date (acc @ x # xs))"
    by (simp add: mset_insort_cmp)
  then have "distinct (map date (insort_cmp date_desc x acc @ xs)) = distinct (map date (acc @ x # xs))"
    by (rule mset_eq_imp_distinct_iff)
  then have "distinct (map date (insort_cmp date_desc x acc @ xs))"
    using Cons.prems(2) by blast
  then have "date_descending (foldl (\<lambda>acc x. insort_cmp date_desc x acc) (insort_cmp date_desc x acc) xs)
       \<and> mset (foldl (\<lambda>acc x. insort_cmp date_desc x acc) (insort_cmp date_desc x acc) xs)
         = mset (insort_cmp date_desc x acc) + mset xs"
    using d by (intro Cons.IH)
  then show ?case by (simp add: mset_insort_cmp)
qed

text \<open>
  C6. When the posts that the loop has loaded (the items that are neither skipped nor
  drafts) have pairwise distinct date strings, \<open>loadPosts\<close> returns them, all of them and
  no other, in strictly descending order of the date string, compared as strings. The
  posts dated 2024-01-01, 2024-03-01, 2024-02-01 come back as 2024-03-01, 2024-02-01,
  2024-01-01.
\<close>

theorem loadPosts_sorted_by_date:
  assumes "load_loop blogSlug matter entries [] = Inr loaded"
    and "distinct (map date loaded)"
  shows "\<exists>ps. loadPosts blogSlug matter (Some entries) = Inr ps
           \<and> mset ps = mset loaded
           \<and> sorted_wrt (\<lambda>p q. date q < date p) ps"
proof -
  have "date_descending (sort_cmp date_desc loaded) \<and> mset (sort_cmp date_desc loaded) = mset [] + mset loaded"
    unfolding sort_cmp_def using assms(2)
    by (intro foldl_insort_date_desc) (simp_all add: date_descending_def)
  then show ?thesis using assms(1) by (simp add: loadPosts_def date_descending_def)
qed

lemma md_suffix: "endsWith (asc ''a.md'') (asc ''.md'')" "endsWith (asc ''b.md'') (asc ''.md'')"
  "endsWith (asc ''c.md'') (asc ''.md'')"
  by (simp_all add: endsWith_def suffix_to_prefix asc_def)

lemma md_slug: "take (length (asc ''a.md'') - 3) (asc ''a.md'') = asc ''a''"
  "take (length (asc ''b.md'') - 3) (asc ''b.md'') = asc ''b''"
  "take (length (asc ''c.md'') - 3) (asc ''c.md'') = asc ''c''"
  by (simp_all add: asc_def)

lemma date10: "take 10 (asc ''2024-01-01'') = asc ''2024-01-01''"
  "take 10 (asc ''2024-02-01'') = asc ''2024-02-01''"
  "take 10 (asc ''2024-03-01'') = asc ''2024-03-01''"
  by (simp_all add: asc_def)

lemma sample_truthy: "asc ''t'' \<noteq> []" "asc ''mio'' \<noteq> []" "asc ''2024-01-01'' \<noteq> []"
  "asc ''2024-02-01'' \<noteq> []" "asc ''2024-03-01'' \<noteq> []"
  by (simp_all add: asc_def)

lemma three_loaded:
  "load_loop (asc ''b'') (sample_matter (JStr (asc ''t'')) JUndefined) three_entries []
   = Inr [sample_post (asc ''a'') (asc ''2024-01-01''), sample_post (asc ''b'') (asc ''2024-03-01''),
          sample_post (asc ''c'') (asc ''2024-02-01'')]"
  by (simp add: three_entries_def sample_matter_def sample_post_def md_suffix md_slug date10
        sample_truthy Let_def)

lemma sample_dates:
  "asc ''2024-01-01'' < asc ''2024-03-01''" "asc ''2024-01-01'' < asc ''2024-02-01''"
  "asc ''2024-02-01'' < asc ''2024-03-01''" "\<not> asc ''2024-03-01'' < asc ''2024-02-01''"
  "\<not> asc ''2024-03-01'' < asc ''2024-01-01''" "\<not> asc ''2024-02-01'' < asc ''2024-01-01''"
  by (simp_all add: asc_def)

lemma sample_dates_distinct:
  "distinct [asc ''2024-01-01'', asc ''2024-03-01'', asc ''2024-02-01'']"
  by (simp add: asc_def)

lemma three_sorted:
  "sort_cmp date_desc
     [sample_post (asc ''a'') (asc ''2024-01-01''), sample_post (asc ''b'') (asc ''2024-03-01''),
      sample_post (asc ''c'') (asc ''2024-02-01'')]
   = [sample_post (asc ''b'') (asc ''2024-03-01''), sample_post (asc ''c'') (asc ''2024-02-01''),
      sample_post (asc ''a'') (asc ''2024-01-01'')]"
  by (simp add: sort_cmp_def date_desc_pos sample_post_def sample_dates)

lemma three_result:
  "loadPosts (asc ''b'') (sample_matter (JStr (asc ''t'')) JUndefined) (Some three_entries)
   = Inr [sample_post (asc ''b'') (asc ''2024-03-01''), sample_post (asc ''c'') (asc ''2024-02-01''),
          sample_post (asc ''a'') (asc ''2024-01-01'')]"
  by (simp add: loadPosts_def three_loaded three_sorted)

lemma three_result_dates:
  "map date [sample_post (asc ''b'') (asc ''2024-03-01''), sample_post (asc ''c'') (asc ''2024-02-01''),
             sample_post (asc ''a'') (asc ''2024-01-01'')]
   = [asc ''2024-03-01'', asc ''2024-02-01'', asc ''2024-01-01'']"
  by (simp add: sample_post_def)

theorem loadPosts_sorted_by_date_witness:
  "\<exists>ps. loadPosts (asc ''b'') (sample_matter (JStr (asc ''t'')) JUndefined) (Some three_entries) = Inr ps
      \<and> map date ps = [asc ''2024-03-01'', asc ''2024-02-01'', asc ''2024-01-01'']
      \<and> sorted_wrt (\<lambda>p q. date q < date p) ps"
proof -
  have dist: "distinct (map date [sample_post (asc ''a'') (asc ''2024-01-01''),
      sample_post (asc ''b'') (asc ''2024-03-01''), sample_post (asc ''c'') (asc ''2024-02-01'')])"
    using sample_dates_distinct by (simp add: sample_post_def)
  have "sorted_wrt (\<lambda>p q. date q < date p)
          [sample_post (asc ''b'') (asc ''2024-03-01''), sample_post (asc ''c'') (asc ''2024-02-01''),
           sample_post (asc ''a'') (asc ''2024-01-01'')]"
    using loadPosts_sorted_by_date [OF three_loaded dist] unfolding three_result by simp
  then show ?thesis
    unfolding three_result by (simp only: three_result_dates sum.inject simp_thms ex_simps)
qed

section \<open>Properties of the theme fragment builders\<close>

lemma named_themes_iff:
  "t \<notin> set named_themes \<longleftrightarrow>
     t \<noteq> JStr (asc ''retro-cosmic'') \<and> t \<noteq> JStr (asc ''gym-log'')
     \<and> t \<noteq> JStr (asc ''love-column'') \<and> t \<noteq> JStr (asc ''izakaya'')
     \<and> t \<noteq> JStr (asc ''onsen-cosmos'') \<and> t \<noteq> JStr (asc ''comedy-zine'')
     \<and> t \<noteq> JStr (asc ''academy-log'') \<and> t \<noteq> JStr (asc ''terminal'')
     \<and> t \<noteq> JStr (asc ''kawase-blog'') \<and> t \<noteq> JStr (asc ''sake-modern'')"
  by (simp add: named_themes_def)

lemma default_not_named: "default_theme \<notin> set named_themes"
  by (simp add: default_theme_def named_themes_def asc_def)

lemma post_card_fallback:
  assumes "t \<notin> set named_themes"
  shows "post_card t p = post_card default_theme p"
  using assms default_not_named unfolding named_themes_iff post_card_def by simp

lemma buildPostListHtml_fallback:
  assumes "t \<notin> set named_themes"
  shows "buildPostListHtml ps s t = buildPostListHtml ps s default_theme"
proof -
  have "post_card t = post_card default_theme"
    by (rule ext) (rule post_card_fallback [OF assms])
  then show ?thesis by (simp add: buildPostListHtml_def)
qed

lemma buildTagFilterHtml_fallback:
  assumes "t \<notin> set named_themes"
  shows "buildTagFilterHtml ps t = buildTagFilterHtml ps default_theme"
  using assms default_not_named unfolding named_themes_iff buildTagFilterHtml_def
  by (simp add: Let_def)

lemma buildNavCard_fallback:
  assumes "t \<notin> set named_themes"
  shows "buildNavCard n l s t = buildNavCard n l s default_theme"
proof (cases n)
  case None
  then show ?thesis by (simp add: buildNavCard_def)
next
  case (Some p)
  then show ?thesis
    using assms default_not_named unfolding named_themes_iff buildNavCard_def by simp
qed

lemma buildTagsHtml_fallback:
  assumes "t \<notin> set named_themes"
  shows "buildTagsHtml ts t = buildTagsHtml ts default_theme"
  using assms default_not_named unfolding named_themes_iff buildTagsHtml_def by simp

text \<open>
  C7. For every theme value that is none of the ten named variants (a string or not),
  each of the four builders returns, on every input, what it returns for the default theme
  \<open>word-retro\<close> on that input. The builders are total functions: no input makes the
  dispatch fail.
\<close>

theorem unknown_theme_falls_back:
  assumes "theme \<notin> set named_themes"
  shows "buildPostListHtml posts blogSlug theme = buildPostListHtml posts blogSlug default_theme
       \<and> buildTagFilterHtml posts theme = buildTagFilterHtml posts default_theme
       \<and> buildNavCard neighbour label blogSlug theme = buildNavCard neighbour label blogSlug default_theme
       \<and> buildTagsHtml tagList theme = buildTagsHtml tagList default_theme"
  using assms
  by (simp only: buildPostListHtml_fallback buildTagFilterHtml_fallback buildNavCard_fallback
        buildTagsHtml_fallback simp_thms)

theorem unknown_theme_falls_back_witness:
  \<open>JNum 7 \<notin> set named_themes \<and> JStr (asc ''neon'') \<notin> set named_themes
   \<and> buildTagsHtml [JStr (asc ''a<b'')] (JStr (asc ''neon''))
       = asc ''<span class="word-tag">#a&lt;b</span>''
   \<and> buildTagsHtml [JStr (asc ''a<b'')] (JStr (asc ''neon''))
       = buildTagsHtml [JStr (asc ''a<b'')] default_theme
   \<and> buildNavCard None (asc ''next'') (asc ''b'') (JNum 7)
       = buildNavCard None (asc ''next'') (asc ''b'') default_theme\<close>
proof -
  have a: "JNum 7 \<notin> set named_themes" by (simp add: named_themes_def)
  have b: "JStr (asc ''neon'') \<notin> set named_themes" by (simp add: named_themes_def asc_def)
  have c: \<open>buildTagsHtml [JStr (asc ''a<b'')] (JStr (asc ''neon''))
       = asc ''<span class="word-tag">#a&lt;b</span>''\<close>
    using b unfolding named_themes_iff
    by (simp add: buildTagsHtml_def esc_JStr) (simp add: escape_once_def entity_def asc_def)
  show ?thesis
    using unknown_theme_falls_back [OF a, of "[]" "asc ''b''" None "asc ''next''" "[]"]
      unknown_theme_falls_back [OF b, of "[]" "asc ''b''" None "asc ''next''" "[JStr (asc ''a<b'')]"]
      a b c
    by simp
qed

section \<open>Properties of the client-side tag filter\<close>

lemma click_display:
  assumes "i < length (tagButtons pg)" and "j < length (postCards pg)"
  shows "display (postCards (click i pg) ! j) = []
         \<longleftrightarrow> data_tag_btn (tagButtons pg ! i) = asc ''__all__''
           \<or> data_tag_btn (tagButtons pg ! i)
               \<in> set (split_str (asc '','') (data_post_tags (postCards pg ! j)))"
proof -
  have "asc ''none'' \<noteq> []" by (simp add: asc_def)
  then show ?thesis using assms by (simp add: click_def Let_def)
qed

text \<open>
  C8. On a page of the \<open>kawase-blog\<close> theme, whose active-state class is
  \<open>kawase-tag-active\<close>, a click on the tag button \<open>sf\<close> shows the cards that carry the
  tag and hides the others, but it gives the clicked button the class \<open>word-tag-active\<close>
  and leaves \<open>kawase-tag-active\<close> on the "all" button: the handler knows the active
  classes of the themes \<open>word\<close>, \<open>cosmic\<close> and \<open>term\<close> only.
\<close>

theorem click_kawase_active_class:
  "map classList (tagButtons (click 1 kawase_page))
     = [[asc ''kawase-tag'', asc ''kawase-tag-active''], [asc ''kawase-tag'', asc ''word-tag-active'']]
   \<and> map display (postCards (click 1 kawase_page)) = [[], asc ''none'']"
  by (simp add: click_def kawase_page_def classList_remove_def classList_add_def split_str_def
        Let_def asc_def)

text \<open>
  The page above is the one the build writes: for the theme \<open>kawase-blog\<close> and one
  post tagged \<open>sf\<close>, \<open>buildTagFilterHtml\<close> gives the "all" button the classes
  \<open>kawase-tag kawase-tag-active\<close> and the tag button the class \<open>kawase-tag\<close>.
\<close>

lemma kawase_not_earlier:
  "asc ''kawase-blog'' \<noteq> asc ''retro-cosmic''" "asc ''kawase-blog'' \<noteq> asc ''gym-log''"
  "asc ''kawase-blog'' \<noteq> asc ''love-column''" "asc ''kawase-blog'' \<noteq> asc ''izakaya''"
  "asc ''kawase-blog'' \<noteq> asc ''onsen-cosmos''" "asc ''kawase-blog'' \<noteq> asc ''comedy-zine''"
  "asc ''kawase-blog'' \<noteq> asc ''academy-log''" "asc ''kawase-blog'' \<noteq> asc ''terminal''"
  by (simp_all add: asc_def)

lemma esc_sf: "esc (JStr (asc ''sf'')) = asc ''sf''"
  by (simp add: esc_JStr escape_once_def entity_def asc_def)

lemma kawase_filter_markup:
  \<open>buildTagFilterHtml [(sample_post (asc ''a'') (asc ''2024-01-01''))\<lparr>tags := [JStr (asc ''sf'')]\<rparr>]
     (JStr (asc ''kawase-blog''))
   = asc ''<div class="kawase-tag-filter">\<newline>''
     @ asc ''  <div class="kawase-tag-filter-heading">'' @ [0x2726] @ asc '' ''
     @ [0x30BF, 0x30B0, 0x3067, 0x7D5E, 0x308A, 0x8FBC, 0x307F] @ asc ''</div>\<newline>''
     @ asc ''  <div class="kawase-tag-filter-wrap">''
     @ asc ''<button data-tag-btn="__all__" class="kawase-tag kawase-tag-active">''
     @ [0x3059, 0x3079, 0x3066] @ asc ''</button>''
     @ asc ''<button data-tag-btn="sf" class="kawase-tag">#sf</button>''
     @ asc ''</div>\<newline>''
     @ asc ''</div>''\<close>
proof -
  have t: "set_values (concat (map tags [(sample_post (asc ''a'') (asc ''2024-01-01''))\<lparr>tags := [JStr (asc ''sf'')]\<rparr>]))
           = [JStr (asc ''sf'')]"
    by (simp add: set_values_def sample_post_def)
  show ?thesis
    unfolding buildTagFilterHtml_def t Let_def
    by (simp add: kawase_not_earlier esc_sf) (simp add: asc_def)
qed

end
